theory Spec2Isabelle
  imports Complex_Main "HOL-Library.AList" "HOL-Library.Sublist"
begin

section \<open>Python values shared by both dashboards\<close>

text \<open>
  An exception is its class name and the text \<open>str(e)\<close> gives. Every exception modelled
  here is a subclass of \<open>Exception\<close>, so \<open>except Exception\<close> catches all of them.
\<close>

datatype exn = Exn (exn_type: string) (exn_str: string)

text \<open>
  The scalars and lists a configuration dictionary holds. A Python float is carried as the
  number it denotes: no arithmetic is done on it, it is only passed on.
\<close>

datatype pyval = PStr string | PInt int | PFloat real | PBool bool | PList "pyval list"

text \<open>A \<open>dict(...)\<close> literal keeps its insertion order: an association list.\<close>

type_synonym pydict = "(string \<times> pyval) list"

text \<open>The line feed, and a text between single quotes.\<close>

definition newline :: string where
  "newline = [CHR 0x0A]"

definition quoted :: "string \<Rightarrow> string" where
  "quoted x = [CHR 0x27] @ x @ [CHR 0x27]"

text \<open>
  Reading \<open>.name\<close> of an attribute that is \<open>None\<close> raises \<open>AttributeError\<close>.
\<close>

definition attribute_name :: "string option \<Rightarrow> exn + string" where
  "attribute_name obj =
     (case obj of
        None \<Rightarrow>
          Inl (Exn ''AttributeError''
                 (quoted ''NoneType'' @ '' object has no attribute '' @ quoted ''name''))
      | Some n \<Rightarrow> Inr n)"

section \<open>TFA dashboard (dashboards/TFA.py)\<close>

subsection \<open>Widgets and configuration\<close>

text \<open>
  The values of the module's \<open>widgets\<close> dictionary that the controller reads. The
  date range picker holds two datetimes, each kept as the string \<open>isoformat()\<close> returns.
  The file dropper is the \<open>CustomisedFileDropper\<close> of \<open>common.py\<close>: its \<open>value\<close>
  (the uploaded names, empty when nothing is uploaded) and the names of its \<open>temp_file\<close>
  and \<open>file_in_mem\<close> attributes (\<open>None\<close> when the attribute is \<open>None\<close>).
\<close>

record tfa_widgets =
  spacecraft :: string
  start_end :: "string \<times> string"
  file_dropper_value :: "string list"
  temp_file :: "string option"
  file_in_mem :: "string option"
  preprocess_active_component :: int
  preprocess_sampling_rate :: real
  clean_window_size :: int
  clean_multiplier :: real
  clean_method :: string
  filter_cutoff :: real
  wavelet_min_frequency :: real
  wavelet_max_frequency :: real
  wavelet_dj :: real

text \<open>The initial widget values of lines 25 to 108.\<close>

definition widgets :: tfa_widgets where
  "widgets =
     \<lparr> spacecraft = ''Swarm-A'',
       start_end = (''2026-01-01T00:00:00'', ''2026-01-02T00:00:00''),
       file_dropper_value = [],
       temp_file = None,
       file_in_mem = None,
       preprocess_active_component = 2,
       preprocess_sampling_rate = 1,
       clean_window_size = 300,
       clean_multiplier = 1 / 2,
       clean_method = ''iqr'',
       filter_cutoff = 2 / 100,
       wavelet_min_frequency = 2 / 100,
       wavelet_max_frequency = 1 / 10,
       wavelet_dj = 1 / 10 \<rparr>"

record config =
  data_params :: "pydict list"
  process_params :: "pydict list"

text \<open>The string \<open>Model='CHAOS-Core'+'CHAOS-Static'\<close>, with its quote characters.\<close>

definition chaos_model :: string where
  "chaos_model =
     ''Model='' @ [CHR 0x27] @ ''CHAOS-Core'' @ [CHR 0x27] @ ''+'' @ [CHR 0x27]
       @ ''CHAOS-Static'' @ [CHR 0x27]"

subsection \<open>The external collaborators\<close>

text \<open>
  What the controller calls outside this repository, as parameters:
  \<^item> \<open>fetch_data\<close> is \<open>swarmpal.fetch_data\<close>; its first argument is the number of
    fetches made before, so that the data source may answer differently over time;
  \<^item> \<open>apply_processes\<close> is \<open>swarmpal.apply_processes\<close>, which changes the dataset it is
    given in place: it returns the dataset as the call leaves it, and the exception when
    a step raised;
  \<^item> \<open>repr_html\<close> is the dataset's \<open>_repr_html_()\<close> and \<open>truthy\<close> its truth value;
  \<^item> \<open>quicklook\<close> is \<open>swarmpal.toolboxes.tfa.plotting.quicklook\<close> followed by
    \<open>fig.tight_layout()\<close>;
  \<^item> \<open>vires_template\<close> and \<open>cli_template\<close> stand for printing the configuration
    (\<open>pprinter\<close>, \<open>yaml.dump\<close>), \<open>replace_file_paths\<close> and the Jinja rendering;
  \<^item> \<open>truncate_product\<close> is \<open>Path(filename).stem\<close> followed by the \<open>re.sub\<close> of
    \<open>_get_data_product\<close>;
  \<^item> \<open>format_exc\<close> is \<open>traceback.format_exc()\<close> for the exception being handled.
\<close>

record ('d, 'f) tfa_env =
  fetch_data :: "nat \<Rightarrow> config \<Rightarrow> exn + 'd"
  apply_processes :: "'d \<Rightarrow> pydict list \<Rightarrow> 'd \<times> exn option"
  repr_html :: "'d \<Rightarrow> exn + string"
  truthy :: "'d \<Rightarrow> bool"
  quicklook :: "'d \<Rightarrow> string \<times> string \<Rightarrow> exn + 'f"
  vires_template :: "tfa_widgets \<Rightarrow> config \<Rightarrow> exn + string"
  cli_template :: "tfa_widgets \<Rightarrow> config \<Rightarrow> exn + string"
  truncate_product :: "string \<Rightarrow> string"
  format_exc :: "exn \<Rightarrow> string"

subsection \<open>State\<close>

text \<open>
  One entry of the log pane: the colour chosen for its level and the message. The pane's
  HTML is the concatenation of the entries, each a \<open>div\<close> in that colour with the time of
  day it was written and the message with its HTML escaped.
\<close>

record log_entry =
  color :: string
  message :: string

text \<open>
  Datasets are objects: \<open>heap\<close> holds them, and \<open>raw_data\<close>, \<open>data\<close> and the cache
  hold references (indices into the heap). A fetch and \<open>copy.deepcopy\<close> allocate a new
  object; \<open>apply_processes\<close> overwrites the object it is given.
\<close>

type_synonym ref = nat

record 'f cache_entry =
  c_raw_data :: "ref option"
  c_data :: "ref option"
  c_figure :: "'f option"
  c_data_view :: "string option"
  c_code_snippet :: "string option"
  c_cli_command :: "string option"

text \<open>
  The \<open>TFA_GUI\<close> object, with the process-wide \<open>pn.state.cache\<close> and the heap.
  \<open>data_tabs\<close> is the active tab index, \<open>None\<close> until the \<open>sidebar\<close> property has
  built the tabs. \<open>fetch_calls\<close> and \<open>process_calls\<close> count the calls of
  \<open>swarmpal.fetch_data\<close> and \<open>swarmpal.apply_processes\<close> made so far.
\<close>

record ('d, 'f) tfa_gui =
  gui_widgets :: tfa_widgets
  data_tabs :: "nat option"
  heap :: "'d list"
  raw_data :: "ref option"
  data :: "ref option"
  output_title :: "string option"
  swarmpal_quicklook :: "'f option"
  data_view :: "string option"
  code_snippet :: "string option"
  cli_command :: "string option"
  log_messages :: "log_entry list"
  is_loading :: bool
  log_button_name :: string
  log_button_type :: string
  cache :: "string \<rightharpoonup> 'f cache_entry"
  fetch_calls :: nat
  process_calls :: nat

text \<open>How a call ends: \<open>None\<close> when it returns, \<open>Some e\<close> when \<open>e\<close> propagates.\<close>

type_synonym ('d, 'f) outcome = "exn option \<times> ('d, 'f) tfa_gui"

definition cache_key :: string where
  "cache_key = ''tfa_precache''"

definition quicklook_title :: string where
  "quicklook_title = ''# SwarmPAL TFA Quicklook''"

subsection \<open>Helpers\<close>

text \<open>The pictographs of the two names of the log button, as their UTF-8 bytes.\<close>

definition clipboard_sign :: string where
  "clipboard_sign = [CHR 0xF0, CHR 0x9F, CHR 0x93, CHR 0x8B]"

definition hourglass_sign :: string where
  "hourglass_sign = [CHR 0xE2, CHR 0x8F, CHR 0xB3]"

text \<open>\<open>set_loading\<close> (lines 288 to 296).\<close>

definition set_loading :: "bool \<Rightarrow> ('d, 'f) tfa_gui \<Rightarrow> ('d, 'f) tfa_gui" where
  "set_loading loading s =
     (if loading
      then s\<lparr>is_loading := loading, log_button_name := hourglass_sign @ '' Processing...'',
             log_button_type := ''warning''\<rparr>
      else s\<lparr>is_loading := loading, log_button_name := clipboard_sign @ '' View Logs'',
             log_button_type := ''light''\<rparr>)"

text \<open>\<open>colors.get(level, colors["info"])\<close> of \<open>log\<close>.\<close>

definition level_color :: "string \<Rightarrow> string" where
  "level_color level =
     (if level = ''info'' then ''#2c3e50''
      else if level = ''success'' then ''#27ae60''
      else if level = ''warning'' then ''#f39c12''
      else if level = ''error'' then ''#e74c3c''
      else ''#2c3e50'')"

definition log :: "string \<Rightarrow> string \<Rightarrow> ('d, 'f) tfa_gui \<Rightarrow> ('d, 'f) tfa_gui" where
  "log msg level s =
     s\<lparr>log_messages := log_messages s @ [\<lparr>color = level_color level, message = msg\<rparr>]\<rparr>"

definition using_cdf_input :: "('d, 'f) tfa_gui \<Rightarrow> bool" where
  "using_cdf_input s = (case data_tabs s of None \<Rightarrow> False | Some active \<Rightarrow> active = 1)"

definition get_data_product :: "('d, 'f) tfa_env \<Rightarrow> ('d, 'f) tfa_gui \<Rightarrow> exn + string" where
  "get_data_product env s =
     (if using_cdf_input s then
        (case attribute_name (file_in_mem (gui_widgets s)) of
           Inl e \<Rightarrow> Inl e
         | Inr filename \<Rightarrow> Inr (truncate_product env filename))
      else if spacecraft (gui_widgets s) = ''Swarm-A'' then Inr ''SW_OPER_MAGA_LR_1B''
      else if spacecraft (gui_widgets s) = ''Swarm-B'' then Inr ''SW_OPER_MAGB_LR_1B''
      else if spacecraft (gui_widgets s) = ''Swarm-C'' then Inr ''SW_OPER_MAGC_LR_1B''
      else Inr ''SW_OPER_MAGA_LR_1B'')"

definition vires_data_params :: "string \<Rightarrow> string \<Rightarrow> string \<Rightarrow> pydict list" where
  "vires_data_params data_product t0 t1 =
     [[(''provider'', PStr ''vires''),
       (''collection'', PStr data_product),
       (''measurements'', PList [PStr ''B_NEC'']),
       (''models'', PList [PStr chaos_model]),
       (''auxiliaries'', PList [PStr ''QDLat'', PStr ''MLT'']),
       (''start_time'', PStr t0),
       (''end_time'', PStr t1),
       (''pad_times'', PList [PStr ''03:00:00'', PStr ''03:00:00'']),
       (''server_url'', PStr ''https://vires.services/ows'')]]"

definition make_vires_data_params ::
  "('d, 'f) tfa_env \<Rightarrow> ('d, 'f) tfa_gui \<Rightarrow> exn + pydict list" where
  "make_vires_data_params env s =
     (case get_data_product env s of
        Inl e \<Rightarrow> Inl e
      | Inr data_product \<Rightarrow>
          Inr (vires_data_params data_product
                 (fst (start_end (gui_widgets s))) (snd (start_end (gui_widgets s)))))"

definition make_cdf_data_params ::
  "('d, 'f) tfa_env \<Rightarrow> ('d, 'f) tfa_gui \<Rightarrow> exn + pydict list" where
  "make_cdf_data_params env s =
     (case attribute_name (temp_file (gui_widgets s)) of
        Inl e \<Rightarrow> Inl e
      | Inr filename \<Rightarrow>
          (case get_data_product env s of
             Inl e \<Rightarrow> Inl e
           | Inr product_name \<Rightarrow>
               Inr [[(''provider'', PStr ''file''),
                     (''filename'', PStr filename),
                     (''filetype'', PStr ''cdf''),
                     (''dataset'', PStr product_name)]]))"

definition make_data_params ::
  "('d, 'f) tfa_env \<Rightarrow> ('d, 'f) tfa_gui \<Rightarrow> exn + pydict list" where
  "make_data_params env s =
     (if using_cdf_input s then make_cdf_data_params env s
      else make_vires_data_params env s)"

text \<open>The four steps of \<open>make_config\<close>, in the order of the list literal.\<close>

definition tfa_process_params :: "string \<Rightarrow> tfa_widgets \<Rightarrow> pydict list" where
  "tfa_process_params data_product w =
     [[(''process_name'', PStr ''TFA_Preprocess''),
       (''dataset'', PStr data_product),
       (''active_variable'', PStr ''B_NEC''),
       (''active_component'', PInt (preprocess_active_component w)),
       (''sampling_rate'', PFloat (preprocess_sampling_rate w)),
       (''remove_model'', PBool False)],
      [(''process_name'', PStr ''TFA_Clean''),
       (''window_size'', PInt (clean_window_size w)),
       (''method'', PStr (clean_method w)),
       (''multiplier'', PFloat (clean_multiplier w))],
      [(''process_name'', PStr ''TFA_Filter''),
       (''cutoff_frequency'', PFloat (filter_cutoff w))],
      [(''process_name'', PStr ''TFA_Wavelet''),
       (''min_frequency'', PFloat (wavelet_min_frequency w)),
       (''max_frequency'', PFloat (wavelet_max_frequency w)),
       (''dj'', PFloat (wavelet_dj w))]]"

definition make_config :: "('d, 'f) tfa_env \<Rightarrow> ('d, 'f) tfa_gui \<Rightarrow> exn + config" where
  "make_config env s =
     (case get_data_product env s of
        Inl e \<Rightarrow> Inl e
      | Inr data_product \<Rightarrow>
          (case make_data_params env s of
             Inl e \<Rightarrow> Inl e
           | Inr dp \<Rightarrow>
               Inr \<lparr>data_params = dp,
                    process_params = tfa_process_params data_product (gui_widgets s)\<rparr>))"

definition get_vires_code :: "('d, 'f) tfa_env \<Rightarrow> ('d, 'f) tfa_gui \<Rightarrow> exn + string" where
  "get_vires_code env s =
     (case make_config env s of
        Inl e \<Rightarrow> Inl e
      | Inr cfg \<Rightarrow> vires_template env (gui_widgets s) cfg)"

definition get_cli :: "('d, 'f) tfa_env \<Rightarrow> ('d, 'f) tfa_gui \<Rightarrow> exn + string" where
  "get_cli env s =
     (case make_config env s of
        Inl e \<Rightarrow> Inl e
      | Inr cfg \<Rightarrow> cli_template env (gui_widgets s) cfg)"

subsection \<open>The controller\<close>

text \<open>\<open>copy.deepcopy\<close> of the object at \<open>r\<close>: a new object with the same contents.\<close>

definition deepcopy :: "ref \<Rightarrow> ('d, 'f) tfa_gui \<Rightarrow> ref \<times> ('d, 'f) tfa_gui" where
  "deepcopy r s = (length (heap s), s\<lparr>heap := heap s @ [heap s ! r]\<rparr>)"

text \<open>
  \<open>swarmpal.apply_processes(obj, process_params)\<close> on the object at \<open>a\<close>: the object is
  overwritten with what the call leaves, whether or not a step raised.
\<close>

definition run_processes ::
  "('d, 'f) tfa_env \<Rightarrow> ref \<Rightarrow> pydict list \<Rightarrow> ('d, 'f) tfa_gui \<Rightarrow> ('d, 'f) outcome" where
  "run_processes env a ps s =
     (case apply_processes env (heap s ! a) ps of
        (d', res) \<Rightarrow>
          (res, s\<lparr>heap := (heap s)[a := d'], process_calls := Suc (process_calls s)\<rparr>))"

text \<open>
  The \<open>except Exception\<close> and \<open>finally\<close> clauses that \<open>update_input_data\<close> (lines 441
  to 447) and \<open>update_analysis\<close> (lines 500 to 506) share: the exception is logged twice
  at level error, raised again, and the loading indicator is cleared on every path.
\<close>

definition except_finally ::
  "('d, 'f) tfa_env \<Rightarrow> string \<Rightarrow> ('d, 'f) outcome \<Rightarrow> ('d, 'f) outcome" where
  "except_finally env intro out =
     (case out of
        (None, s) \<Rightarrow> (None, set_loading False s)
      | (Some e, s) \<Rightarrow>
          (Some e,
           set_loading False
             (log (format_exc env e) ''error'' (log (intro @ exn_str e) ''error'' s))))"

text \<open>
  The end of the \<open>try\<close> block of \<open>update_analysis\<close> (lines 481 to 499): no plot in
  CDF mode, and the quicklook plot of the processed object at \<open>a\<close> otherwise.
\<close>

definition render_plot ::
  "('d, 'f) tfa_env \<Rightarrow> ref \<Rightarrow> ('d, 'f) tfa_gui \<Rightarrow> ('d, 'f) outcome" where
  "render_plot env a s8 =
     (if using_cdf_input s8 then (None, log ''Analysis complete (CDF mode)'' ''success'' s8)
      else
        (let s9 = log ''Generating quicklook plot...'' ''info'' s8
         in case quicklook env (heap s9 ! a) (start_end (gui_widgets s9)) of
              Inl e \<Rightarrow> (Some e, s9)
            | Inr fig \<Rightarrow>
                (None, log ''Analysis complete'' ''success'' (s9\<lparr>swarmpal_quicklook := Some fig\<rparr>))))"

text \<open>
  Lines 469 to 479 of the \<open>try\<close> block: the title, the two snippets, the early return on
  a dataset that is false, and the data view; then the plot.
\<close>

definition render_views ::
  "('d, 'f) tfa_env \<Rightarrow> string \<Rightarrow> ref \<Rightarrow> ('d, 'f) tfa_gui \<Rightarrow> ('d, 'f) outcome" where
  "render_views env title a s4 =
     (let s5 = s4\<lparr>output_title := Some title\<rparr>
      in case get_cli env s5 of
           Inl e \<Rightarrow> (Some e, s5)
         | Inr cli \<Rightarrow>
             (let s6 = s5\<lparr>cli_command := Some cli\<rparr>
              in case get_vires_code env s6 of
                   Inl e \<Rightarrow> (Some e, s6)
                 | Inr code \<Rightarrow>
                     (let s7 = s6\<lparr>code_snippet := Some code\<rparr>
                      in if \<not> truthy env (heap s7 ! a) then (None, s7)
                         else
                           (case repr_html env (heap s7 ! a) of
                              Inl e \<Rightarrow> (Some e, s7)
                            | Inr html \<Rightarrow> render_plot env a (s7\<lparr>data_view := Some html\<rparr>)))))"

text \<open>
  The \<open>try\<close> block of \<open>update_analysis\<close> (lines 461 to 499); \<open>r\<close> is \<open>self.raw_data\<close>.
  The processed handle is bound to a fresh copy of the raw object before the processes
  run on that copy.
\<close>

definition analysis_try ::
  "('d, 'f) tfa_env \<Rightarrow> string \<Rightarrow> ref \<Rightarrow> ('d, 'f) tfa_gui \<Rightarrow> ('d, 'f) outcome" where
  "analysis_try env title r s0 =
     (let s1 = log ''Running analysis with current parameters...'' ''info'' (set_loading True s0)
      in case make_config env s1 of
           Inl e \<Rightarrow> (Some e, s1)
         | Inr cfg \<Rightarrow>
             (case deepcopy r s1 of
                (a, s2) \<Rightarrow>
                  (case run_processes env a (process_params cfg) (s2\<lparr>data := Some a\<rparr>) of
                     (Some e, s4) \<Rightarrow> (Some e, s4)
                   | (None, s4) \<Rightarrow> render_views env title a s4)))"

text \<open>\<open>update_analysis(event, title)\<close> (lines 452 to 506).\<close>

definition update_analysis ::
  "('d, 'f) tfa_env \<Rightarrow> string \<Rightarrow> ('d, 'f) tfa_gui \<Rightarrow> ('d, 'f) outcome" where
  "update_analysis env title s =
     (case raw_data s of
        None \<Rightarrow>
          (None,
           log ''No data available for analysis'' ''warning''
             (s\<lparr>output_title := Some ''Please fetch data first''\<rparr>))
      | Some r \<Rightarrow> except_finally env ''Error during analysis: '' (analysis_try env title r s))"

text \<open>
  Lines 437 to 440 of \<open>update_input_data\<close>: the data view and the code snippet of the
  processed object at \<open>a\<close>.
\<close>

definition show_fetched ::
  "('d, 'f) tfa_env \<Rightarrow> ref \<Rightarrow> ('d, 'f) tfa_gui \<Rightarrow> ('d, 'f) outcome" where
  "show_fetched env a s5 =
     (case repr_html env (heap s5 ! a) of
        Inl e \<Rightarrow> (Some e, s5)
      | Inr html \<Rightarrow>
          (let s6 = s5\<lparr>data_view := Some html\<rparr>
           in case get_vires_code env s6 of
                Inl e \<Rightarrow> (Some e, s6)
              | Inr code \<Rightarrow>
                  (None,
                   log ''Data fetched and processed successfully'' ''success''
                     (s6\<lparr>code_snippet := Some code\<rparr>))))"

text \<open>
  The \<open>try\<close> block of \<open>update_input_data\<close> (lines 427 to 440). The raw handle is bound
  to the fetched object as soon as the fetch returns, and the processed handle to its
  copy before the processes run.
\<close>

definition fetch_try :: "('d, 'f) tfa_env \<Rightarrow> ('d, 'f) tfa_gui \<Rightarrow> ('d, 'f) outcome" where
  "fetch_try env s0 =
     (let s1 = log ''Fetching input data...'' ''info'' (set_loading True s0)
      in case make_config env s1 of
           Inl e \<Rightarrow> (Some e, s1)
         | Inr cfg \<Rightarrow>
             (case fetch_data env (fetch_calls s1) cfg of
                Inl e \<Rightarrow> (Some e, s1\<lparr>fetch_calls := Suc (fetch_calls s1)\<rparr>)
              | Inr d \<Rightarrow>
                  (let r = length (heap s1);
                       s2 = s1\<lparr>heap := heap s1 @ [d], raw_data := Some r,
                               fetch_calls := Suc (fetch_calls s1)\<rparr>
                   in case deepcopy r s2 of
                        (a, s3) \<Rightarrow>
                          (case run_processes env a (process_params cfg)
                                  (log ''Applying processes...'' ''info'' (s3\<lparr>data := Some a\<rparr>)) of
                             (Some e, s5) \<Rightarrow> (Some e, s5)
                           | (None, s5) \<Rightarrow> show_fetched env a s5))))"

text \<open>
  \<open>update_input_data(event)\<close> (lines 420 to 450): the guard on a missing upload, the
  \<open>try\<close> statement, and the call of \<open>update_analysis(None)\<close> once it ended normally.
\<close>

definition update_input_data :: "('d, 'f) tfa_env \<Rightarrow> ('d, 'f) tfa_gui \<Rightarrow> ('d, 'f) outcome" where
  "update_input_data env s =
     (if using_cdf_input s \<and> file_dropper_value (gui_widgets s) = [] then (None, s)
      else
        (case except_finally env ''Error fetching data: '' (fetch_try env s) of
           (Some e, s') \<Rightarrow> (Some e, s')
         | (None, s') \<Rightarrow> update_analysis env quicklook_title s'))"

subsection \<open>Start of life and the cache\<close>

definition entry_of :: "('d, 'f) tfa_gui \<Rightarrow> 'f cache_entry" where
  "entry_of s =
     \<lparr> c_raw_data = raw_data s,
       c_data = data s,
       c_figure = swarmpal_quicklook s,
       c_data_view = data_view s,
       c_code_snippet = code_snippet s,
       c_cli_command = cli_command s \<rparr>"

text \<open>\<open>_load_initial_data\<close> (lines 215 to 235): it catches every exception.\<close>

definition load_initial_data :: "('d, 'f) tfa_env \<Rightarrow> ('d, 'f) tfa_gui \<Rightarrow> ('d, 'f) tfa_gui" where
  "load_initial_data env s =
     (case update_input_data env (log ''Starting TFA dashboard...'' ''info'' s) of
        (Some e, s') \<Rightarrow>
          log (format_exc env e) ''error''
            (log (''Failed to load initial data: '' @ exn_str e) ''error'' s')
      | (None, s') \<Rightarrow>
          log ''Dashboard initialized successfully'' ''success''
            (s'\<lparr>cache := (cache s')(cache_key \<mapsto> entry_of s')\<rparr>))"

text \<open>
  The attributes \<open>TFA_GUI.__init__\<close> sets before it looks at the cache (lines 142 to
  191); the heap, the cache and the call counters belong to the process and stay.
\<close>

definition new_gui :: "tfa_widgets \<Rightarrow> ('d, 'f) tfa_gui \<Rightarrow> ('d, 'f) tfa_gui" where
  "new_gui w s =
     s\<lparr> gui_widgets := w, data_tabs := None, raw_data := None, data := None,
        output_title := None, swarmpal_quicklook := None, data_view := None,
        code_snippet := None, cli_command := None, log_messages := [],
        is_loading := False, log_button_name := clipboard_sign @ '' View Logs'',
        log_button_type := ''light'' \<rparr>"

text \<open>
  \<open>TFA_GUI.__init__\<close> (lines 193 to 213). A cache entry is a record of the six values
  both writers of the cache store, so the six subscripts of the \<open>try\<close> block find their
  keys and its \<open>except\<close> clause has no path here.
\<close>

definition TFA_GUI_init ::
  "('d, 'f) tfa_env \<Rightarrow> tfa_widgets \<Rightarrow> ('d, 'f) tfa_gui \<Rightarrow> ('d, 'f) tfa_gui" where
  "TFA_GUI_init env w s0 =
     (let s = new_gui w s0
      in case cache s cache_key of
           Some cached \<Rightarrow>
             log ''Loaded from cache successfully'' ''success''
               ((log ''Loading from cache...'' ''info'' s)
                  \<lparr> raw_data := c_raw_data cached,
                     data := c_data cached,
                     swarmpal_quicklook := c_figure cached,
                     data_view := c_data_view cached,
                     code_snippet := c_code_snippet cached,
                     cli_command := c_cli_command cached,
                     output_title := Some quicklook_title \<rparr>)
         | None \<Rightarrow> load_initial_data env s)"

text \<open>The \<open>default_config\<close> literal of \<open>_populate_tfa_cache\<close> (lines 565 to 603).\<close>

definition default_config :: config where
  "default_config =
     \<lparr> data_params =
         [[(''provider'', PStr ''vires''),
           (''collection'', PStr ''SW_OPER_MAGA_LR_1B''),
           (''measurements'', PList [PStr ''B_NEC'']),
           (''models'', PList [PStr chaos_model]),
           (''auxiliaries'', PList [PStr ''QDLat'', PStr ''MLT'']),
           (''start_time'', PStr ''2026-01-01T00:00:00''),
           (''end_time'', PStr ''2026-01-02T00:00:00''),
           (''pad_times'', PList [PStr ''03:00:00'', PStr ''03:00:00'']),
           (''server_url'', PStr ''https://vires.services/ows'')]],
       process_params =
         [[(''process_name'', PStr ''TFA_Preprocess''),
           (''dataset'', PStr ''SW_OPER_MAGA_LR_1B''),
           (''active_variable'', PStr ''B_NEC''),
           (''active_component'', PInt 2),
           (''sampling_rate'', PFloat 1),
           (''remove_model'', PBool False)],
          [(''process_name'', PStr ''TFA_Clean''),
           (''window_size'', PInt 300),
           (''method'', PStr ''iqr''),
           (''multiplier'', PFloat (1 / 2))],
          [(''process_name'', PStr ''TFA_Filter''),
           (''cutoff_frequency'', PFloat (2 / 100))],
          [(''process_name'', PStr ''TFA_Wavelet''),
           (''min_frequency'', PFloat (2 / 100)),
           (''max_frequency'', PFloat (1 / 10)),
           (''dj'', PFloat (1 / 10))]] \<rparr>"

text \<open>
  \<open>_populate_tfa_cache\<close> (lines 558 to 635), run when the module is loaded. Its
  \<open>except\<close> clause only prints.
\<close>

definition populate_tfa_cache :: "('d, 'f) tfa_env \<Rightarrow> ('d, 'f) tfa_gui \<Rightarrow> ('d, 'f) tfa_gui" where
  "populate_tfa_cache env s =
     (if cache s cache_key \<noteq> None then s
      else
        (case fetch_data env (fetch_calls s) default_config of
           Inl e \<Rightarrow> s\<lparr>fetch_calls := Suc (fetch_calls s)\<rparr>
         | Inr d \<Rightarrow>
             (let r = length (heap s);
                  s1 = s\<lparr>heap := heap s @ [d], fetch_calls := Suc (fetch_calls s)\<rparr>
              in case deepcopy r s1 of
                   (a, s2) \<Rightarrow>
                     (case run_processes env a (process_params default_config) s2 of
                        (Some e, s3) \<Rightarrow> s3
                      | (None, s3) \<Rightarrow>
                          (case quicklook env (heap s3 ! a)
                                  (''2026-01-01T00:00:00'', ''2026-01-02T00:00:00'') of
                             Inl e \<Rightarrow> s3
                           | Inr fig \<Rightarrow>
                               (case repr_html env (heap s3 ! a) of
                                  Inl e \<Rightarrow> s3
                                | Inr html \<Rightarrow>
                                    s3\<lparr>cache := (cache s3)(cache_key \<mapsto>
                                         \<lparr> c_raw_data = Some r,
                                           c_data = Some a,
                                           c_figure = Some fig,
                                           c_data_view = Some html,
                                           c_code_snippet =
                                             Some ''# Code snippet will be generated on first use'',
                                           c_cli_command =
                                             Some ''# CLI command will be generated on first use''
                                         \<rparr>)\<rparr>))))))"

text \<open>
  Loading the module (lines 638 and 640): the precache, then the construction of the
  dashboard object from the module's widgets.
\<close>

definition module_load :: "('d, 'f) tfa_env \<Rightarrow> ('d, 'f) tfa_gui \<Rightarrow> ('d, 'f) tfa_gui" where
  "module_load env s = TFA_GUI_init env widgets (populate_tfa_cache env s)"

subsection \<open>The part of the state the rendering steps leave alone\<close>

definition same_data :: "('d, 'f) tfa_gui \<Rightarrow> ('d, 'f) tfa_gui \<Rightarrow> bool" where
  "same_data s s' \<longleftrightarrow>
     gui_widgets s' = gui_widgets s \<and> data_tabs s' = data_tabs s \<and> heap s' = heap s \<and>
     raw_data s' = raw_data s \<and> data s' = data s \<and> cache s' = cache s \<and>
     fetch_calls s' = fetch_calls s \<and> process_calls s' = process_calls s"

subsection \<open>Example collaborators and states\<close>

text \<open>
  Datasets, figures and snippets are strings here. Processing appends the name of every
  step to the dataset, in the order the steps are passed.
\<close>

definition step_names :: "pydict list \<Rightarrow> string list" where
  "step_names ps =
     map (\<lambda>p. case map_of p ''process_name'' of Some (PStr n) \<Rightarrow> n | _ \<Rightarrow> ''?'') ps"

definition ok_env :: "(string, string) tfa_env" where
  "ok_env =
     \<lparr> fetch_data = (\<lambda>n cfg. Inr ''raw''),
       apply_processes = (\<lambda>d ps. (d @ concat (map (\<lambda>n. ''+'' @ n) (step_names ps)), None)),
       repr_html = (\<lambda>d. Inr (''<div>'' @ d @ ''</div>'')),
       truthy = (\<lambda>d. d \<noteq> []),
       quicklook = (\<lambda>d t. Inr (''plot of '' @ d)),
       vires_template = (\<lambda>w c. Inr ''code''),
       cli_template = (\<lambda>w c. Inr ''cli''),
       truncate_product = (\<lambda>n. n),
       format_exc = (\<lambda>e. ''Traceback: '' @ exn_str e) \<rparr>"

text \<open>The first processing step raises after it has changed the dataset.\<close>

definition failing_process_env :: "(string, string) tfa_env" where
  "failing_process_env =
     ok_env\<lparr>apply_processes :=
              (\<lambda>d ps. (d @ ''+TFA_Preprocess'', Some (Exn ''KeyError'' ''B_NEC'')))\<rparr>"

text \<open>The data source is unreachable.\<close>

definition failing_fetch_env :: "(string, string) tfa_env" where
  "failing_fetch_env =
     ok_env\<lparr>fetch_data := (\<lambda>n cfg. Inl (Exn ''ConnectionError'' ''unreachable''))\<rparr>"

text \<open>A process that has just started: no object, no cache entry, no session.\<close>

definition empty_gui :: "(string, string) tfa_gui" where
  "empty_gui =
     \<lparr> gui_widgets = widgets, data_tabs = None, heap = [], raw_data = None, data = None,
       output_title = None, swarmpal_quicklook = None, data_view = None,
       code_snippet = None, cli_command = None, log_messages = [], is_loading = False,
       log_button_name = clipboard_sign @ '' View Logs'', log_button_type = ''light'',
       cache = Map.empty,
       fetch_calls = 0, process_calls = 0 \<rparr>"

text \<open>A session that holds a raw dataset and its processed copy from an earlier fetch.\<close>

definition loaded_gui :: "(string, string) tfa_gui" where
  "loaded_gui =
     empty_gui\<lparr> heap := [''old raw'', ''old processed''], raw_data := Some 0, data := Some 1,
                fetch_calls := 1, process_calls := 1 \<rparr>"

text \<open>
  The data source is unreachable at the first fetch of the process and answers from
  the second one on.
\<close>

definition flaky_fetch_env :: "(string, string) tfa_env" where
  "flaky_fetch_env =
     ok_env\<lparr>fetch_data :=
              (\<lambda>n cfg. if n = 0 then Inl (Exn ''ConnectionError'' ''unreachable'')
                       else Inr ''raw'')\<rparr>"


section \<open>DSECS dashboard (dashboards/DSECS.py)\<close>

subsection \<open>Pictographs and quoting\<close>

text \<open>
  The pictographs of the status messages and button names, as their UTF-8 bytes.
\<close>

definition warning_sign :: string where
  "warning_sign = [CHR 0xE2, CHR 0x9A, CHR 0xA0, CHR 0xEF, CHR 0xB8, CHR 0x8F]"

definition check_mark :: string where
  "check_mark = [CHR 0xE2, CHR 0x9C, CHR 0x85]"

definition cross_mark :: string where
  "cross_mark = [CHR 0xE2, CHR 0x9D, CHR 0x8C]"

definition loading_sign :: string where
  "loading_sign = [CHR 0xF0, CHR 0x9F, CHR 0x94, CHR 0x84]"

definition play_sign :: string where
  "play_sign = [CHR 0xE2, CHR 0x96, CHR 0xB6]"

definition pause_sign :: string where
  "pause_sign = [CHR 0xE2, CHR 0x8F, CHR 0xB8]"

text \<open>The text of \<open>list(d.keys())\<close> inside an f-string, for keys that are plain strings.\<close>

fun join_comma :: "string list \<Rightarrow> string" where
  "join_comma [] = []"
| "join_comma [x] = x"
| "join_comma (x # y # ys) = x @ '', '' @ join_comma (y # ys)"

definition py_list_repr :: "string list \<Rightarrow> string" where
  "py_list_repr keys = ''['' @ join_comma (map quoted keys) @ '']''"

subsection \<open>Collaborators and state\<close>

text \<open>
  What the explorer calls outside this repository:
  \<^item> \<open>open_datatree\<close> is \<open>xarray.open_datatree(file_path, engine='netcdf4')\<close>;
  \<^item> \<open>ds_str\<close> is \<open>str(data)\<close>, \<open>ds_groups_str\<close> the string of \<open>data.groups\<close> (of the
    dataset itself when it has no such attribute), \<open>ds_repr_html\<close> is \<open>data._repr_html_()\<close>,
    \<open>ds_type\<close> the text of \<open>type(data)\<close>, and \<open>ds_dict_keys\<close> the keys of \<open>data.__dict__\<close>
    (\<open>None\<close> when the object has no \<open>__dict__\<close>);
  \<^item> \<open>ds_quicklook\<close> is \<open>dsecs_plotting.quicklook\<close>: a dictionary from frame numbers to
    figures, in insertion order;
  \<^item> \<open>resize_figure\<close> is \<open>fig.set_size_inches(12, 8)\<close> followed by \<open>fig.tight_layout()\<close>,
    which change the figure in place: the figure as the calls leave it, and the exception
    when one of them raised;
  \<^item> \<open>render_code\<close> is the Jinja rendering of \<open>get_code\<close>, given \<open>preprocessed\<close> and
    \<open>analyzed\<close> (the date range picker is disabled);
  \<^item> \<open>ds_format_exc\<close> is \<open>traceback.format_exc()\<close> and \<open>pending_figure\<close> the figure
    \<open>_pending_matplotlib_figure()\<close> builds.
\<close>

record ('d, 'f) dsecs_env =
  open_datatree :: "string \<Rightarrow> exn + 'd"
  ds_str :: "'d \<Rightarrow> exn + string"
  ds_groups_str :: "'d \<Rightarrow> exn + string"
  ds_repr_html :: "'d \<Rightarrow> exn + string"
  ds_type :: "'d \<Rightarrow> string"
  ds_dict_keys :: "'d \<Rightarrow> string list option"
  ds_quicklook :: "'d \<Rightarrow> exn + (int \<times> 'f) list"
  resize_figure :: "'f \<Rightarrow> 'f \<times> exn option"
  render_code :: "bool \<Rightarrow> bool \<Rightarrow> exn + string"
  ds_format_exc :: "exn \<Rightarrow> string"
  pending_figure :: 'f

text \<open>The \<open>IntSlider\<close> of the frames.\<close>

record slider =
  slider_start :: int
  slider_end :: int
  slider_value :: int
  slider_disabled :: bool

text \<open>
  A running periodic callback: its period in milliseconds and the list \<open>frames\<close> that the
  closure \<open>advance_frame\<close> captured when \<open>_start_animation\<close> created it.
\<close>

record periodic_callback =
  cb_period :: nat
  cb_frames :: "int list"

text \<open>
  The \<open>DsecsDataExplorer\<close> object with the upload widget it reads. \<open>animation_figures\<close>
  is a dictionary in insertion order.
\<close>

record ('d, 'f) dsecs_explorer =
  netcdf_dropper_value :: "string list"
  netcdf_temp_file :: "string option"
  netcdf_file_in_mem :: "string option"
  ds_data :: "'d option"
  preprocessed :: bool
  analyzed :: bool
  status_info :: string
  ds_data_view :: "string option"
  ds_code_snippet :: "string option"
  swarmpal_animated :: "'f option"
  frame_slider :: slider
  play_button_name :: string
  play_button_disabled :: bool
  animation_figures :: "(int \<times> 'f) list"
  animation_playing :: bool
  animation_callback :: "periodic_callback option"

text \<open>The attributes \<open>__init__\<close> sets (lines 43 to 99), with nothing uploaded.\<close>

definition new_explorer :: "('d, 'f) dsecs_explorer" where
  "new_explorer =
     \<lparr> netcdf_dropper_value = [], netcdf_temp_file = None, netcdf_file_in_mem = None,
       ds_data = None, preprocessed = False, analyzed = False,
       status_info = ''Ready to fetch data...'', ds_data_view = None, ds_code_snippet = None,
       swarmpal_animated = None,
       frame_slider = \<lparr>slider_start = 0, slider_end = 0, slider_value = 0,
                        slider_disabled = True\<rparr>,
       play_button_name = play_sign @ '' Play'', play_button_disabled = True,
       animation_figures = [], animation_playing = False, animation_callback = None \<rparr>"

subsection \<open>The data view\<close>

definition pre_open :: string where
  "pre_open =
     ''<pre style='' @
     quoted (''white-space: pre-wrap; font-family: monospace; font-size: 12px; '' @
             ''max-height: 400px; overflow-y: auto;'') @ ''>''"

text \<open>The diagnostic of the innermost \<open>except\<close> clause (lines 336 to 340).\<close>

definition error_info :: "('d, 'f) dsecs_env \<Rightarrow> 'd \<Rightarrow> exn \<Rightarrow> exn \<Rightarrow> string" where
  "error_info env d e e2 =
     cross_mark @ '' Error displaying data: '' @ exn_str e @ newline @
     ''Fallback error: '' @ exn_str e2 @ newline @
     ''Data type: '' @ ds_type env d @ newline @
     (case ds_dict_keys env d of
        Some keys \<Rightarrow> ''Attributes: '' @ py_list_repr keys
      | None \<Rightarrow> [])"

text \<open>
  \<open>_update_data_view\<close> (lines 323 to 343). The first component is the exception that
  leaves the method, if any.
\<close>

definition update_data_view ::
  "('d, 'f) dsecs_env \<Rightarrow> ('d, 'f) dsecs_explorer \<Rightarrow> exn option \<times> ('d, 'f) dsecs_explorer" where
  "update_data_view env s =
     (case ds_data s of
        Some d \<Rightarrow>
          (case ds_repr_html env d of
             Inr html \<Rightarrow> (None, s\<lparr>ds_data_view := Some html\<rparr>)
           | Inl e \<Rightarrow>
               (case ds_str env d of
                  Inr raw_string \<Rightarrow>
                    (None, s\<lparr>ds_data_view := Some (pre_open @ raw_string @ ''</pre>'')\<rparr>)
                | Inl e2 \<Rightarrow>
                    (None,
                     s\<lparr>ds_data_view := Some (''<pre>'' @ error_info env d e e2 @ ''</pre>'')\<rparr>)))
      | None \<Rightarrow> (None, s\<lparr>ds_data_view := Some ''<p>No data loaded</p>''\<rparr>))"

text \<open>\<open>_update_code_snippet\<close> (lines 443 to 449).\<close>

definition update_code_snippet ::
  "('d, 'f) dsecs_env \<Rightarrow> ('d, 'f) dsecs_explorer \<Rightarrow> ('d, 'f) dsecs_explorer" where
  "update_code_snippet env s =
     (case render_code env (preprocessed s) (analyzed s) of
        Inr code \<Rightarrow> s\<lparr>ds_code_snippet := Some (''```python'' @ newline @ code @ newline @ ''```'')\<rparr>
      | Inl e \<Rightarrow> s\<lparr>ds_code_snippet := Some ''Code snippet generation failed''\<rparr>)"

subsection \<open>The animation player\<close>

text \<open>\<open>_update_animation_frame\<close> (lines 402 to 406), the watcher of the slider's value.\<close>

definition update_animation_frame ::
  "int \<Rightarrow> ('d, 'f) dsecs_explorer \<Rightarrow> ('d, 'f) dsecs_explorer" where
  "update_animation_frame frame s =
     (case map_of (animation_figures s) frame of
        Some fig \<Rightarrow> s\<lparr>swarmpal_animated := Some fig\<rparr>
      | None \<Rightarrow> s)"

text \<open>
  An assignment to \<open>frame_slider.value\<close>, by the user or by the code: the watcher runs
  when the value changes.
\<close>

definition set_slider_value ::
  "int \<Rightarrow> ('d, 'f) dsecs_explorer \<Rightarrow> ('d, 'f) dsecs_explorer" where
  "set_slider_value v s =
     (if v = slider_value (frame_slider s) then s
      else update_animation_frame v (s\<lparr>frame_slider := (frame_slider s)\<lparr>slider_value := v\<rparr>\<rparr>))"

text \<open>\<open>frame_slider.param.update(start, end, value, disabled)\<close>.\<close>

definition slider_update ::
  "int \<Rightarrow> int \<Rightarrow> int \<Rightarrow> bool \<Rightarrow> ('d, 'f) dsecs_explorer \<Rightarrow> ('d, 'f) dsecs_explorer" where
  "slider_update st en v dis s =
     (let s1 = s\<lparr>frame_slider :=
                   \<lparr>slider_start = st, slider_end = en, slider_value = v,
                    slider_disabled = dis\<rparr>\<rparr>
      in if v = slider_value (frame_slider s) then s1 else update_animation_frame v s1)"

text \<open>\<open>_disable_animation_controls\<close> (lines 396 to 400).\<close>

definition disable_animation_controls ::
  "('d, 'f) dsecs_env \<Rightarrow> ('d, 'f) dsecs_explorer \<Rightarrow> ('d, 'f) dsecs_explorer" where
  "disable_animation_controls env s =
     s\<lparr> frame_slider := (frame_slider s)\<lparr>slider_disabled := True\<rparr>,
        play_button_disabled := True,
        swarmpal_animated := Some (pending_figure env) \<rparr>"

text \<open>
  The loop of \<open>_setup_animated_quicklook\<close> (lines 362 to 373): both branches of its
  \<open>try\<close> statement store the figure, as resizing left it, under its frame number.
\<close>

definition resize_all :: "('d, 'f) dsecs_env \<Rightarrow> (int \<times> 'f) list \<Rightarrow> (int \<times> 'f) list" where
  "resize_all env figures_dict =
     fold (\<lambda>(frame_id, fig) resized. AList.update frame_id (fst (resize_figure env fig)) resized)
       figures_dict []"

text \<open>\<open>_setup_animated_quicklook\<close> (lines 359 to 394).\<close>

definition setup_animated_quicklook ::
  "('d, 'f) dsecs_env \<Rightarrow> (int \<times> 'f) list \<Rightarrow> ('d, 'f) dsecs_explorer \<Rightarrow> ('d, 'f) dsecs_explorer" where
  "setup_animated_quicklook env figures_dict s =
     (let resized_figures = resize_all env figures_dict;
          s1 = s\<lparr>animation_figures := resized_figures\<rparr>
      in if resized_figures \<noteq> [] then
           (let frames = map fst resized_figures
            in if frames \<noteq> [] then
                 (let s2 = slider_update (Min (set frames)) (Max (set frames)) (Min (set frames))
                             False s1;
                      s3 = s2\<lparr>play_button_disabled := False\<rparr>
                  in s3\<lparr>swarmpal_animated := map_of resized_figures (Min (set frames))\<rparr>)
               else disable_animation_controls env s1)
         else disable_animation_controls env s1)"

text \<open>\<open>frames.index(x)\<close> for an \<open>x\<close> that is in the list.\<close>

fun list_index :: "int list \<Rightarrow> int \<Rightarrow> nat" where
  "list_index [] x = 0"
| "list_index (y # ys) x = (if y = x then 0 else Suc (list_index ys x))"

text \<open>The closure \<open>advance_frame\<close> of \<open>_start_animation\<close> (lines 429 to 438).\<close>

definition advance_frame ::
  "int list \<Rightarrow> ('d, 'f) dsecs_explorer \<Rightarrow> ('d, 'f) dsecs_explorer" where
  "advance_frame frames s =
     (if \<not> animation_playing s then s
      else
        (let current_frame = slider_value (frame_slider s);
             current_idx = (if current_frame \<in> set frames then list_index frames current_frame
                            else 0);
             next_idx = (current_idx + 1) mod length frames;
             next_frame = frames ! next_idx
         in set_slider_value next_frame s))"

text \<open>\<open>_start_animation\<close> (lines 423 to 441).\<close>

definition start_animation :: "('d, 'f) dsecs_explorer \<Rightarrow> ('d, 'f) dsecs_explorer" where
  "start_animation s =
     (let frames = map fst (animation_figures s)
      in if frames = [] then s
         else s\<lparr>animation_callback := Some \<lparr>cb_period = 1200, cb_frames = frames\<rparr>\<rparr>)"

text \<open>
  \<open>_toggle_animation\<close> (lines 408 to 421). Stopping the callback removes the timer; the
  attribute is then set to \<open>None\<close>.
\<close>

definition toggle_animation :: "('d, 'f) dsecs_explorer \<Rightarrow> ('d, 'f) dsecs_explorer" where
  "toggle_animation s =
     (if animation_playing s then
        (let s1 = s\<lparr>animation_playing := False, play_button_name := play_sign @ '' Play''\<rparr>
         in case animation_callback s1 of
              Some cb \<Rightarrow> s1\<lparr>animation_callback := None\<rparr>
            | None \<Rightarrow> s1)
      else
        start_animation
          (s\<lparr>animation_playing := True, play_button_name := pause_sign @ '' Pause''\<rparr>))"

text \<open>One tick of the timer: the running callback, if there is one, is called.\<close>

definition tick :: "('d, 'f) dsecs_explorer \<Rightarrow> ('d, 'f) dsecs_explorer" where
  "tick s =
     (case animation_callback s of
        Some cb \<Rightarrow> advance_frame (cb_frames cb) s
      | None \<Rightarrow> s)"

subsection \<open>Loading a file\<close>

text \<open>\<open>_update_quicklook\<close> (lines 345 to 357).\<close>

definition update_quicklook ::
  "('d, 'f) dsecs_env \<Rightarrow> ('d, 'f) dsecs_explorer \<Rightarrow> ('d, 'f) dsecs_explorer" where
  "update_quicklook env s =
     (case ds_data s of
        Some d \<Rightarrow>
          (if analyzed s then
             (case ds_quicklook env d of
                Inr figs \<Rightarrow>
                  (if figs \<noteq> [] then setup_animated_quicklook env figs s
                   else s\<lparr>status_info :=
                            warning_sign @ '' No figures generated from DSECS quicklook''\<rparr>)
              | Inl e \<Rightarrow> s\<lparr>status_info := warning_sign @ '' Plotting error: '' @ exn_str e\<rparr>)
           else s)
      | None \<Rightarrow> s)"

text \<open>
  The \<open>try\<close> block of \<open>load_netcdf_data\<close> (lines 183 to 217). The result is the local
  variable \<open>filename\<close> as the block leaves it (\<open>None\<close> while it is unbound), the exception
  the block raised, if any, and the state.
\<close>

definition load_try ::
  "('d, 'f) dsecs_env \<Rightarrow> ('d, 'f) dsecs_explorer \<Rightarrow>
   string option \<times> exn option \<times> ('d, 'f) dsecs_explorer" where
  "load_try env s =
     (case attribute_name (netcdf_temp_file s) of
        Inl e \<Rightarrow> (None, Some e, s)
      | Inr file_path \<Rightarrow>
          (case attribute_name (netcdf_file_in_mem s) of
             Inl e \<Rightarrow> (None, Some e, s)
           | Inr filename \<Rightarrow>
               (let s1 = s\<lparr>status_info := loading_sign @ '' Loading file: '' @ filename @ ''...''\<rparr>
                in case open_datatree env file_path of
                     Inl e \<Rightarrow> (Some filename, Some e, s1)
                   | Inr d \<Rightarrow>
                       (let s2 = s1\<lparr>ds_data := Some d\<rparr>
                        in case ds_str env d of
                             Inl e \<Rightarrow> (Some filename, Some e, s2)
                           | Inr data_str \<Rightarrow>
                               (case ds_groups_str env d of
                                  Inl e \<Rightarrow> (Some filename, Some e, s2)
                                | Inr groups_str \<Rightarrow>
                                    (if sublist ''DSECS_output'' groups_str \<or>
                                        sublist ''currents'' groups_str
                                     then
                                       (let s3 = s2\<lparr>preprocessed := True, analyzed := True,
                                                     status_info := check_mark @
                                                       '' **Pre-computed DSECS results loaded successfully!**''\<rparr>
                                        in (Some filename, None,
                                            update_code_snippet env
                                              (update_quicklook env
                                                 (snd (update_data_view env s3)))))
                                     else
                                       (let s3 = s2\<lparr>preprocessed := False, analyzed := False,
                                                     status_info := check_mark @
                                                       '' Raw data loaded from NetCDF (ready for processing''\<rparr>
                                        in (Some filename, None,
                                            update_code_snippet env
                                              (snd (update_data_view env s3))))))))))"

text \<open>
  \<open>load_netcdf_data\<close> (lines 176 to 223). The \<open>except\<close> clause formats its message
  with the local variable \<open>filename\<close>: reading it while it is unbound raises
  \<open>UnboundLocalError\<close>, which leaves the method.
\<close>

definition load_netcdf_data ::
  "('d, 'f) dsecs_env \<Rightarrow> ('d, 'f) dsecs_explorer \<Rightarrow> exn option \<times> ('d, 'f) dsecs_explorer" where
  "load_netcdf_data env s =
     (if netcdf_dropper_value s = [] then
        (None, s\<lparr>status_info := warning_sign @ '' Please upload a NetCDF file first''\<rparr>)
      else
        (case load_try env s of
           (filename, None, s') \<Rightarrow> (None, s')
         | (filename, Some e, s') \<Rightarrow>
             (case filename of
                None \<Rightarrow>
                  (Some (Exn ''UnboundLocalError''
                           (''cannot access local variable '' @ quoted ''filename'' @
                            '' where it is not associated with a value'')),
                   s')
              | Some name \<Rightarrow>
                  (None,
                   s'\<lparr>status_info :=
                        cross_mark @ '' **Failed to load file '' @ quoted name @ '':** '' @
                        exn_str e @ ''<br><details><summary>Click for details</summary><pre>'' @
                        ds_format_exc env e @ ''</pre></details>''\<rparr>))))"

subsection \<open>Example collaborators and figures\<close>

text \<open>
  Datasets and figures are strings. The view of the dataset \<open>''broken''\<close> raises, and so
  does its \<open>str\<close>; the view of \<open>''mock''\<close> raises and its \<open>str\<close> is \<open>abc\<close>. The text
  of every other dataset begins as that of a \<open>DataTree\<close> does. Resizing appends a mark to
  a figure.
\<close>

definition demo_env :: "(string, string) dsecs_env" where
  "demo_env =
     \<lparr> open_datatree = (\<lambda>path. Inr ''tree''),
       ds_str = (\<lambda>d. if d = ''broken'' then Inl (Exn ''ValueError'' ''no text'')
                      else if d = ''mock'' then Inr ''abc''
                      else Inr (''<xarray.DataTree> '' @ d)),
       ds_groups_str = (\<lambda>d. Inr ''(/, /DSECS_output)''),
       ds_repr_html = (\<lambda>d. if d = ''broken'' \<or> d = ''mock''
                            then Inl (Exn ''RuntimeError'' ''no html'')
                            else Inr (''<div>'' @ d @ ''</div>'')),
       ds_type = (\<lambda>d. ''<class '' @ quoted ''xarray.core.datatree.DataTree'' @ ''>''),
       ds_dict_keys = (\<lambda>d. Some [''_name'', ''_children'']),
       ds_quicklook = (\<lambda>d. Inr [(0, ''f0''), (1, ''f1''), (2, ''f2'')]),
       resize_figure = (\<lambda>f. (f @ '' 12x8'', None)),
       render_code = (\<lambda>p a. Inr ''code''),
       ds_format_exc = (\<lambda>e. ''Traceback: '' @ exn_str e),
       pending_figure = ''Processing...'' \<rparr>"

text \<open>Three frames inserted in the order 0, 1, 2, and in the order 0, 2, 1.\<close>

definition frames_012 :: "(int \<times> string) list" where
  "frames_012 = [(0, ''f0''), (1, ''f1''), (2, ''f2'')]"

definition frames_021 :: "(int \<times> string) list" where
  "frames_021 = [(0, ''f0''), (2, ''f2''), (1, ''f1'')]"

text \<open>An upload whose temporary file is missing, and one that is complete.\<close>

definition upload_without_temp_file :: "(string, string) dsecs_explorer" where
  "upload_without_temp_file =
     new_explorer\<lparr>netcdf_dropper_value := [''results.nc''], netcdf_temp_file := None,
                  netcdf_file_in_mem := Some ''results.nc''\<rparr>"

definition complete_upload :: "(string, string) dsecs_explorer" where
  "complete_upload =
     new_explorer\<lparr>netcdf_dropper_value := [''results.nc''],
                  netcdf_temp_file := Some ''/tmp/tmpabc.nc'',
                  netcdf_file_in_mem := Some ''results.nc''\<rparr>"

text \<open>A player started on each of the two frame sets; the second one scrubbed to frame 2.\<close>

definition playing_012 :: "(string, string) dsecs_explorer" where
  "playing_012 = toggle_animation (setup_animated_quicklook demo_env frames_012 new_explorer)"

definition playing_021 :: "(string, string) dsecs_explorer" where
  "playing_021 =
     set_slider_value 2
       (toggle_animation (setup_animated_quicklook demo_env frames_021 new_explorer))"



section \<open>Properties of the TFA controller\<close>

subsection \<open>Helper lemmas\<close>

lemmas cfg_defs = make_config_def get_data_product_def make_data_params_def
  make_vires_data_params_def make_cdf_data_params_def using_cdf_input_def

lemmas example_defs = ok_env_def failing_process_env_def failing_fetch_env_def empty_gui_def
  loaded_gui_def widgets_def step_names_def tfa_process_params_def vires_data_params_def
  attribute_name_def quicklook_title_def level_color_def cache_key_def

lemmas run_defs = update_input_data_def fetch_try_def show_fetched_def update_analysis_def
  analysis_try_def render_views_def render_plot_def except_finally_def deepcopy_def
  run_processes_def get_cli_def get_vires_code_def log_def set_loading_def Let_def

lemma log_proj [simp]:
  "gui_widgets (log m l s) = gui_widgets s" "data_tabs (log m l s) = data_tabs s"
  "heap (log m l s) = heap s" "raw_data (log m l s) = raw_data s" "data (log m l s) = data s"
  "output_title (log m l s) = output_title s"
  "swarmpal_quicklook (log m l s) = swarmpal_quicklook s"
  "data_view (log m l s) = data_view s" "code_snippet (log m l s) = code_snippet s"
  "cli_command (log m l s) = cli_command s" "is_loading (log m l s) = is_loading s"
  "log_button_name (log m l s) = log_button_name s"
  "log_button_type (log m l s) = log_button_type s"
  "cache (log m l s) = cache s" "fetch_calls (log m l s) = fetch_calls s"
  "process_calls (log m l s) = process_calls s"
  "log_messages (log m l s) = log_messages s @ [\<lparr>color = level_color l, message = m\<rparr>]"
  by (simp_all add: log_def)

lemma set_loading_proj [simp]:
  "gui_widgets (set_loading b s) = gui_widgets s" "data_tabs (set_loading b s) = data_tabs s"
  "heap (set_loading b s) = heap s" "raw_data (set_loading b s) = raw_data s"
  "data (set_loading b s) = data s" "output_title (set_loading b s) = output_title s"
  "swarmpal_quicklook (set_loading b s) = swarmpal_quicklook s"
  "data_view (set_loading b s) = data_view s" "code_snippet (set_loading b s) = code_snippet s"
  "cli_command (set_loading b s) = cli_command s"
  "log_messages (set_loading b s) = log_messages s"
  "cache (set_loading b s) = cache s" "fetch_calls (set_loading b s) = fetch_calls s"
  "process_calls (set_loading b s) = process_calls s"
  "is_loading (set_loading b s) = b"
  by (simp_all add: set_loading_def)

lemma using_cdf_input_cong:
  "data_tabs s' = data_tabs s \<Longrightarrow> using_cdf_input s' = using_cdf_input s"
  by (simp add: using_cdf_input_def)

lemma make_config_cong:
  "gui_widgets s' = gui_widgets s \<Longrightarrow> data_tabs s' = data_tabs s \<Longrightarrow>
   make_config env s' = make_config env s"
  by (simp add: cfg_defs cong: sum.case_cong option.case_cong)

lemma get_cli_cong:
  "gui_widgets s' = gui_widgets s \<Longrightarrow> data_tabs s' = data_tabs s \<Longrightarrow>
   get_cli env s' = get_cli env s"
  by (simp add: get_cli_def make_config_cong [of s' s] cong: sum.case_cong)

lemma get_vires_code_cong:
  "gui_widgets s' = gui_widgets s \<Longrightarrow> data_tabs s' = data_tabs s \<Longrightarrow>
   get_vires_code env s' = get_vires_code env s"
  by (simp add: get_vires_code_def make_config_cong [of s' s] cong: sum.case_cong)

lemma same_data_refl [simp]: "same_data s s"
  by (simp add: same_data_def)

lemma same_data_trans: "same_data s t \<Longrightarrow> same_data t u \<Longrightarrow> same_data s u"
  by (simp add: same_data_def)

lemma same_data_log [simp]: "same_data s (log m l t) = same_data s t"
  by (simp add: same_data_def)

lemma same_data_set_loading [simp]: "same_data s (set_loading b t) = same_data s t"
  by (simp add: same_data_def)

lemma render_plot_same: "same_data s (snd (render_plot env a s))"
  by (simp add: render_plot_def same_data_def Let_def split: sum.splits)

lemma render_views_same: "same_data s (snd (render_views env title a s))"
proof -
  have plot: "\<And>t. same_data s t \<Longrightarrow> same_data s (snd (render_plot env a t))"
    using render_plot_same same_data_trans by blast
  show ?thesis
    by (auto simp: render_views_def Let_def same_data_def split: sum.splits
        intro!: plot [unfolded same_data_def])
qed

lemma show_fetched_same: "same_data s (snd (show_fetched env a s))"
  by (simp add: show_fetched_def same_data_def Let_def split: sum.splits)

lemma except_finally_fst [simp]: "fst (except_finally env intro out) = fst out"
  by (cases out) (simp add: except_finally_def split: option.splits)

lemma except_finally_same [simp]:
  "same_data s (snd (except_finally env intro out)) = same_data s (snd out)"
  by (cases out) (simp add: except_finally_def split: option.splits)

lemma except_finally_loading [simp]:
  "is_loading (snd (except_finally env intro out)) = False"
  by (cases out) (simp add: except_finally_def split: option.splits)

lemma except_finally_log:
  "log_messages (snd (except_finally env intro out)) =
     (case fst out of
        None \<Rightarrow> log_messages (snd out)
      | Some e \<Rightarrow>
          log_messages (snd out) @
            [\<lparr>color = ''#e74c3c'', message = intro @ exn_str e\<rparr>,
             \<lparr>color = ''#e74c3c'', message = format_exc env e\<rparr>])"
  by (cases out) (simp add: except_finally_def level_color_def split: option.splits)

lemma make_config_log [simp]: "make_config env (log m l s) = make_config env s"
  by (rule make_config_cong) simp_all

lemma make_config_set_loading [simp]: "make_config env (set_loading b s) = make_config env s"
  by (rule make_config_cong) simp_all


lemma analysis_try_no_config:
  assumes "make_config env s = Inl e"
  shows "same_data s (snd (analysis_try env title r s)) \<and> fst (analysis_try env title r s) = Some e"
  using assms by (simp add: analysis_try_def Let_def)

lemma except_finally_views [simp]:
  "output_title (snd (except_finally env intro out)) = output_title (snd out)"
  "cli_command (snd (except_finally env intro out)) = cli_command (snd out)"
  "code_snippet (snd (except_finally env intro out)) = code_snippet (snd out)"
  "data_view (snd (except_finally env intro out)) = data_view (snd out)"
  "swarmpal_quicklook (snd (except_finally env intro out)) = swarmpal_quicklook (snd out)"
  by (cases out; simp add: except_finally_def split: option.splits)+

lemma except_finally_data [simp]:
  "gui_widgets (snd (except_finally env intro out)) = gui_widgets (snd out)"
  "data_tabs (snd (except_finally env intro out)) = data_tabs (snd out)"
  "heap (snd (except_finally env intro out)) = heap (snd out)"
  "raw_data (snd (except_finally env intro out)) = raw_data (snd out)"
  "data (snd (except_finally env intro out)) = data (snd out)"
  "cache (snd (except_finally env intro out)) = cache (snd out)"
  "fetch_calls (snd (except_finally env intro out)) = fetch_calls (snd out)"
  "process_calls (snd (except_finally env intro out)) = process_calls (snd out)"
  by (cases out; simp add: except_finally_def split: option.splits)+






lemma analysis_try_render:
  assumes "make_config env s = Inr cfg"
    and "apply_processes env (heap s ! r) (process_params cfg) = (d', None)"
    and "r < length (heap s)"
  shows "\<exists>s4. analysis_try env title r s = render_views env title (length (heap s)) s4 \<and>
           gui_widgets s4 = gui_widgets s \<and> data_tabs s4 = data_tabs s \<and>
           heap s4 = heap s @ [d']"
  using assms
  by (simp add: analysis_try_def deepcopy_def run_processes_def Let_def nth_append)
    (rule exI, rule conjI, rule refl, simp)

lemma analysis_try_raise:
  assumes "make_config env s = Inr cfg"
    and "apply_processes env (heap s ! r) (process_params cfg) = (d', Some e)"
    and "r < length (heap s)"
  shows "fst (analysis_try env title r s) = Some e"
  using assms
  by (simp add: analysis_try_def deepcopy_def run_processes_def Let_def nth_append)

subsection \<open>The handlers\<close>

lemma analysis_try_keeps:
  "cache (snd (analysis_try env title r s)) = cache s \<and>
   fetch_calls (snd (analysis_try env title r s)) = fetch_calls s \<and>
   raw_data (snd (analysis_try env title r s)) = raw_data s \<and>
   gui_widgets (snd (analysis_try env title r s)) = gui_widgets s \<and>
   data_tabs (snd (analysis_try env title r s)) = data_tabs s"
proof (cases "make_config env s")
  case (Inl e)
  from analysis_try_no_config [OF Inl, of title r] show ?thesis
    by (simp add: same_data_def)
next
  case (Inr cfg)
  obtain d' res where ap: "apply_processes env (heap s ! r) (process_params cfg) = (d', res)"
    by (cases "apply_processes env (heap s ! r) (process_params cfg)")
  have views: "\<And>t. same_data t (snd (render_views env title (length (heap s)) t))"
    by (rule render_views_same)
  from Inr ap show ?thesis
    using views [unfolded same_data_def]
    by (cases res) (simp_all add: analysis_try_def deepcopy_def run_processes_def Let_def)
qed

lemma update_analysis_keeps:
  "cache (snd (update_analysis env title s)) = cache s \<and>
   fetch_calls (snd (update_analysis env title s)) = fetch_calls s \<and>
   raw_data (snd (update_analysis env title s)) = raw_data s \<and>
   gui_widgets (snd (update_analysis env title s)) = gui_widgets s \<and>
   data_tabs (snd (update_analysis env title s)) = data_tabs s"
  using analysis_try_keeps [of env title _ s]
  by (cases "raw_data s") (simp_all add: update_analysis_def)

lemma update_analysis_error:
  assumes "fst (update_analysis env title s) = Some e"
  shows "is_loading (snd (update_analysis env title s)) = False \<and>
         (\<exists>msgs. log_messages (snd (update_analysis env title s)) =
            msgs @ [\<lparr>color = ''#e74c3c'', message = ''Error during analysis: '' @ exn_str e\<rparr>,
                    \<lparr>color = ''#e74c3c'', message = format_exc env e\<rparr>])"
proof (cases "raw_data s")
  case None
  with assms show ?thesis by (simp add: update_analysis_def)
next
  case (Some r)
  with assms show ?thesis
    by (simp add: update_analysis_def except_finally_log)
qed

lemma update_input_data_unfold:
  assumes "\<not> (using_cdf_input s \<and> file_dropper_value (gui_widgets s) = [])"
  shows "update_input_data env s =
           (if fst (fetch_try env s) = None
            then update_analysis env quicklook_title (set_loading False (snd (fetch_try env s)))
            else except_finally env ''Error fetching data: '' (fetch_try env s))"
proof (cases "fetch_try env s")
  case (Pair res t)
  with assms show ?thesis
    by (cases res) (auto simp: update_input_data_def except_finally_def)
qed

lemma fetch_try_no_config:
  assumes "make_config env s = Inl e"
  shows "same_data s (snd (fetch_try env s)) \<and> fst (fetch_try env s) = Some e"
  using assms by (simp add: fetch_try_def Let_def)

lemma fetch_try_fetch_fails:
  assumes "make_config env s = Inr cfg" and "fetch_data env (fetch_calls s) cfg = Inl e"
  shows "fetch_try env s =
           (Some e, (log ''Fetching input data...'' ''info'' (set_loading True s))
                      \<lparr>fetch_calls := Suc (fetch_calls s)\<rparr>)"
  using assms by (simp add: fetch_try_def Let_def)

lemma fetch_try_fetched:
  assumes "make_config env s = Inr cfg" and "fetch_data env (fetch_calls s) cfg = Inr d"
  shows "cache (snd (fetch_try env s)) = cache s \<and>
         gui_widgets (snd (fetch_try env s)) = gui_widgets s \<and>
         data_tabs (snd (fetch_try env s)) = data_tabs s \<and>
         fetch_calls (snd (fetch_try env s)) = Suc (fetch_calls s) \<and>
         process_calls (snd (fetch_try env s)) = Suc (process_calls s) \<and>
         raw_data (snd (fetch_try env s)) = Some (length (heap s)) \<and>
         data (snd (fetch_try env s)) = Some (Suc (length (heap s))) \<and>
         heap (snd (fetch_try env s)) =
           heap s @ [d, fst (apply_processes env d (process_params cfg))]"
proof -
  obtain d' res where ap: "apply_processes env d (process_params cfg) = (d', res)"
    by (cases "apply_processes env d (process_params cfg)")
  have shown: "\<And>t. same_data t (snd (show_fetched env (Suc (length (heap s))) t))"
    by (rule show_fetched_same)
  from assms ap show ?thesis
    using shown [unfolded same_data_def]
    by (cases res)
      (simp_all add: fetch_try_def deepcopy_def run_processes_def Let_def nth_append)
qed

lemma fetch_try_process_fails:
  assumes "make_config env s = Inr cfg" and "fetch_data env (fetch_calls s) cfg = Inr d"
    and "apply_processes env d (process_params cfg) = (d', Some e)"
  shows "fst (fetch_try env s) = Some e \<and>
         log_messages (snd (fetch_try env s)) =
           log_messages s @
             [\<lparr>color = ''#2c3e50'', message = ''Fetching input data...''\<rparr>,
              \<lparr>color = ''#2c3e50'', message = ''Applying processes...''\<rparr>]"
  using assms
  by (simp add: fetch_try_def deepcopy_def run_processes_def Let_def nth_append level_color_def)

lemma fetch_try_cache:
  "cache (snd (fetch_try env s)) = cache s \<and>
   gui_widgets (snd (fetch_try env s)) = gui_widgets s \<and>
   data_tabs (snd (fetch_try env s)) = data_tabs s"
proof (cases "make_config env s")
  case (Inl e)
  from fetch_try_no_config [OF Inl] show ?thesis by (simp add: same_data_def)
next
  case (Inr cfg)
  show ?thesis
  proof (cases "fetch_data env (fetch_calls s) cfg")
    case (Inl e)
    from fetch_try_fetch_fails [OF Inr Inl] show ?thesis by simp
  next
    case (Inr d)
    from fetch_try_fetched [OF \<open>make_config env s = Inr cfg\<close> Inr] show ?thesis by simp
  qed
qed

lemma update_input_data_cache:
  "cache (snd (update_input_data env s)) = cache s"
proof (cases "using_cdf_input s \<and> file_dropper_value (gui_widgets s) = []")
  case True
  then show ?thesis by (simp add: update_input_data_def)
next
  case False
  from update_input_data_unfold [OF False, of env] fetch_try_cache [of env s]
    update_analysis_keeps [of env quicklook_title "set_loading False (snd (fetch_try env s))"]
  show ?thesis by simp
qed

lemma update_input_data_fetch_calls:
  assumes "\<not> (using_cdf_input s \<and> file_dropper_value (gui_widgets s) = [])"
    and "make_config env s = Inr cfg"
  shows "fetch_calls (snd (update_input_data env s)) = Suc (fetch_calls s)"
proof -
  have "fetch_calls (snd (fetch_try env s)) = Suc (fetch_calls s)"
  proof (cases "fetch_data env (fetch_calls s) cfg")
    case (Inl e)
    from fetch_try_fetch_fails [OF assms(2) Inl] show ?thesis by simp
  next
    case (Inr d)
    from fetch_try_fetched [OF assms(2) Inr] show ?thesis by simp
  qed
  with update_input_data_unfold [OF assms(1), of env]
    update_analysis_keeps [of env quicklook_title "set_loading False (snd (fetch_try env s))"]
  show ?thesis by simp
qed

lemma loaded_gui_config:
  "make_config env loaded_gui =
     Inr \<lparr>data_params = vires_data_params ''SW_OPER_MAGA_LR_1B'' ''2026-01-01T00:00:00''
                          ''2026-01-02T00:00:00'',
          process_params = tfa_process_params ''SW_OPER_MAGA_LR_1B'' widgets\<rparr>"
  by (simp add: cfg_defs loaded_gui_def empty_gui_def widgets_def)

lemma load_initial_data_result:
  "load_initial_data env s =
     (case fst (update_input_data env (log ''Starting TFA dashboard...'' ''info'' s)) of
        None \<Rightarrow>
          log ''Dashboard initialized successfully'' ''success''
            ((snd (update_input_data env (log ''Starting TFA dashboard...'' ''info'' s)))
               \<lparr>cache :=
                  (cache (snd (update_input_data env (log ''Starting TFA dashboard...'' ''info'' s))))
                    (cache_key \<mapsto>
                       entry_of
                         (snd (update_input_data env
                                 (log ''Starting TFA dashboard...'' ''info'' s))))\<rparr>)
      | Some e \<Rightarrow>
          log (format_exc env e) ''error''
            (log (''Failed to load initial data: '' @ exn_str e) ''error''
               (snd (update_input_data env (log ''Starting TFA dashboard...'' ''info'' s)))))"
proof (cases "update_input_data env (log ''Starting TFA dashboard...'' ''info'' s)")
  case (Pair res t)
  then show ?thesis by (cases res) (simp_all add: load_initial_data_def)
qed

lemma ok_env_fetch_try:
  "gui_widgets s = widgets \<Longrightarrow> data_tabs s = None \<Longrightarrow> fst (fetch_try ok_env s) = None"
  by (simp add: fetch_try_def show_fetched_def deepcopy_def run_processes_def get_vires_code_def
      cfg_defs ok_env_def widgets_def attribute_name_def Let_def)

lemma ok_env_analysis_try:
  "gui_widgets s = widgets \<Longrightarrow> data_tabs s = None \<Longrightarrow>
   fst (analysis_try ok_env title r s) = None"
  by (simp add: analysis_try_def render_views_def render_plot_def deepcopy_def run_processes_def
      get_vires_code_def get_cli_def cfg_defs ok_env_def widgets_def attribute_name_def Let_def
      step_names_def tfa_process_params_def)

lemma ok_env_update_input_data:
  assumes "gui_widgets s = widgets" and "data_tabs s = None"
  shows "fst (update_input_data ok_env s) = None"
proof -
  have guard: "\<not> (using_cdf_input s \<and> file_dropper_value (gui_widgets s) = [])"
    using assms by (simp add: using_cdf_input_def)
  let ?t = "set_loading False (snd (fetch_try ok_env s))"
  have w: "gui_widgets ?t = widgets" "data_tabs ?t = None"
    using fetch_try_cache [of ok_env s] assms by simp_all
  have "fst (update_analysis ok_env quicklook_title ?t) = None"
    using ok_env_analysis_try [OF w]
    by (cases "raw_data ?t") (simp_all add: update_analysis_def)
  with update_input_data_unfold [OF guard, of ok_env] ok_env_fetch_try [OF assms] show ?thesis
    by simp
qed

lemma failing_process_analysis_try:
  "fst (analysis_try failing_process_env quicklook_title 0 loaded_gui) =
     Some (Exn ''KeyError'' ''B_NEC'')"
proof -
  have p: "apply_processes failing_process_env d ps =
      (d @ ''+TFA_Preprocess'', Some (Exn ''KeyError'' ''B_NEC''))" for d ps
    by (simp add: failing_process_env_def ok_env_def)
  have r: "0 < length (heap loaded_gui)" by (simp add: loaded_gui_def empty_gui_def)
  from analysis_try_raise [OF loaded_gui_config p r] show ?thesis .
qed

subsection \<open>Start of life\<close>

lemma new_gui_proj [simp]:
  "gui_widgets (new_gui w s) = w" "data_tabs (new_gui w s) = None"
  "heap (new_gui w s) = heap s" "cache (new_gui w s) = cache s"
  "fetch_calls (new_gui w s) = fetch_calls s" "process_calls (new_gui w s) = process_calls s"
  by (simp_all add: new_gui_def)

lemma default_widgets_config:
  "gui_widgets s = widgets \<Longrightarrow> data_tabs s = None \<Longrightarrow> make_config env s = Inr default_config"
  by (simp add: cfg_defs widgets_def default_config_def tfa_process_params_def
      vires_data_params_def)

lemma TFA_GUI_init_restore:
  assumes "cache s0 cache_key = Some c"
  shows "raw_data (TFA_GUI_init env w s0) = c_raw_data c \<and>
         data (TFA_GUI_init env w s0) = c_data c \<and>
         swarmpal_quicklook (TFA_GUI_init env w s0) = c_figure c \<and>
         data_view (TFA_GUI_init env w s0) = c_data_view c \<and>
         code_snippet (TFA_GUI_init env w s0) = c_code_snippet c \<and>
         cli_command (TFA_GUI_init env w s0) = c_cli_command c \<and>
         output_title (TFA_GUI_init env w s0) = Some quicklook_title \<and>
         heap (TFA_GUI_init env w s0) = heap s0 \<and>
         cache (TFA_GUI_init env w s0) = cache s0 \<and>
         fetch_calls (TFA_GUI_init env w s0) = fetch_calls s0 \<and>
         process_calls (TFA_GUI_init env w s0) = process_calls s0"
  using assms by (simp add: TFA_GUI_init_def Let_def)

lemma load_initial_data_fields:
  "raw_data (load_initial_data env s) =
     raw_data (snd (update_input_data env (log ''Starting TFA dashboard...'' ''info'' s))) \<and>
   data (load_initial_data env s) =
     data (snd (update_input_data env (log ''Starting TFA dashboard...'' ''info'' s))) \<and>
   swarmpal_quicklook (load_initial_data env s) =
     swarmpal_quicklook (snd (update_input_data env (log ''Starting TFA dashboard...'' ''info'' s))) \<and>
   data_view (load_initial_data env s) =
     data_view (snd (update_input_data env (log ''Starting TFA dashboard...'' ''info'' s))) \<and>
   code_snippet (load_initial_data env s) =
     code_snippet (snd (update_input_data env (log ''Starting TFA dashboard...'' ''info'' s))) \<and>
   cli_command (load_initial_data env s) =
     cli_command (snd (update_input_data env (log ''Starting TFA dashboard...'' ''info'' s))) \<and>
   fetch_calls (load_initial_data env s) =
     fetch_calls (snd (update_input_data env (log ''Starting TFA dashboard...'' ''info'' s)))"
  by (simp add: load_initial_data_result split: option.splits)

lemma load_initial_data_stores:
  assumes "fst (update_input_data env (log ''Starting TFA dashboard...'' ''info'' s)) = None"
  shows "cache (load_initial_data env s) cache_key = Some (entry_of (load_initial_data env s))"
  using assms by (simp add: load_initial_data_result entry_of_def)

lemma populate_fetch_calls:
  assumes "cache s cache_key = None"
  shows "fetch_calls (populate_tfa_cache env s) = Suc (fetch_calls s)"
  using assms
  by (auto simp: populate_tfa_cache_def deepcopy_def run_processes_def Let_def
      split: sum.splits prod.splits option.splits)

subsection \<open>Configuration and snippets do not read what the controller writes\<close>

lemma make_config_upd [simp]:
  "make_config env (heap_update f1 s) = make_config env s"
  "make_config env (raw_data_update f2 s) = make_config env s"
  "make_config env (data_update f3 s) = make_config env s"
  "make_config env (output_title_update f4 s) = make_config env s"
  "make_config env (swarmpal_quicklook_update f5 s) = make_config env s"
  "make_config env (data_view_update f6 s) = make_config env s"
  "make_config env (code_snippet_update f7 s) = make_config env s"
  "make_config env (cli_command_update f8 s) = make_config env s"
  "make_config env (cache_update f9 s) = make_config env s"
  "make_config env (fetch_calls_update f10 s) = make_config env s"
  "make_config env (process_calls_update f11 s) = make_config env s"
  by (rule make_config_cong; simp)+

lemma get_cli_upd [simp]:
  "get_cli env (heap_update f1 s) = get_cli env s"
  "get_cli env (raw_data_update f2 s) = get_cli env s"
  "get_cli env (data_update f3 s) = get_cli env s"
  "get_cli env (output_title_update f4 s) = get_cli env s"
  "get_cli env (swarmpal_quicklook_update f5 s) = get_cli env s"
  "get_cli env (data_view_update f6 s) = get_cli env s"
  "get_cli env (code_snippet_update f7 s) = get_cli env s"
  "get_cli env (cli_command_update f8 s) = get_cli env s"
  "get_cli env (cache_update f9 s) = get_cli env s"
  "get_cli env (fetch_calls_update f10 s) = get_cli env s"
  "get_cli env (process_calls_update f11 s) = get_cli env s"
  "get_cli env (log m l s) = get_cli env s"
  "get_cli env (set_loading b s) = get_cli env s"
  by (rule get_cli_cong; simp)+

lemma get_vires_code_upd [simp]:
  "get_vires_code env (heap_update f1 s) = get_vires_code env s"
  "get_vires_code env (raw_data_update f2 s) = get_vires_code env s"
  "get_vires_code env (data_update f3 s) = get_vires_code env s"
  "get_vires_code env (output_title_update f4 s) = get_vires_code env s"
  "get_vires_code env (swarmpal_quicklook_update f5 s) = get_vires_code env s"
  "get_vires_code env (data_view_update f6 s) = get_vires_code env s"
  "get_vires_code env (code_snippet_update f7 s) = get_vires_code env s"
  "get_vires_code env (cli_command_update f8 s) = get_vires_code env s"
  "get_vires_code env (cache_update f9 s) = get_vires_code env s"
  "get_vires_code env (fetch_calls_update f10 s) = get_vires_code env s"
  "get_vires_code env (process_calls_update f11 s) = get_vires_code env s"
  "get_vires_code env (log m l s) = get_vires_code env s"
  "get_vires_code env (set_loading b s) = get_vires_code env s"
  by (rule get_vires_code_cong; simp)+

lemma using_cdf_input_upd [simp]:
  "using_cdf_input (heap_update f1 s) = using_cdf_input s"
  "using_cdf_input (raw_data_update f2 s) = using_cdf_input s"
  "using_cdf_input (data_update f3 s) = using_cdf_input s"
  "using_cdf_input (output_title_update f4 s) = using_cdf_input s"
  "using_cdf_input (swarmpal_quicklook_update f5 s) = using_cdf_input s"
  "using_cdf_input (data_view_update f6 s) = using_cdf_input s"
  "using_cdf_input (code_snippet_update f7 s) = using_cdf_input s"
  "using_cdf_input (cli_command_update f8 s) = using_cdf_input s"
  "using_cdf_input (cache_update f9 s) = using_cdf_input s"
  "using_cdf_input (fetch_calls_update f10 s) = using_cdf_input s"
  "using_cdf_input (process_calls_update f11 s) = using_cdf_input s"
  "using_cdf_input (log m l s) = using_cdf_input s"
  "using_cdf_input (set_loading b s) = using_cdf_input s"
  by (rule using_cdf_input_cong; simp)+






lemma list_update_third [simp]:
  "(xs @ [a, b, c])[Suc (Suc (length xs)) := v] = xs @ [a, b, v]"
  by (simp add: list_update_append)

text \<open>A fetch on the VirES tab in which nothing raises, step by step.\<close>

lemma update_input_data_success:
  assumes tab: "\<not> using_cdf_input s"
    and cfg: "make_config env s = Inr cfg"
    and fetch: "fetch_data env (fetch_calls s) cfg = Inr d"
    and proc: "apply_processes env d (process_params cfg) = (d1, None)"
    and html: "repr_html env d1 = Inr html"
    and code: "get_vires_code env s = Inr code"
    and cli: "get_cli env s = Inr cli"
    and plot: "truthy env d1 \<longrightarrow> quicklook env d1 (start_end (gui_widgets s)) = Inr fig"
  shows "fst (update_input_data env s) = None \<and>
         raw_data (snd (update_input_data env s)) = Some (length (heap s)) \<and>
         data (snd (update_input_data env s)) = Some (length (heap s) + 2) \<and>
         heap (snd (update_input_data env s)) = heap s @ [d, d1, d1] \<and>
         fetch_calls (snd (update_input_data env s)) = Suc (fetch_calls s) \<and>
         process_calls (snd (update_input_data env s)) = process_calls s + 2 \<and>
         data_view (snd (update_input_data env s)) = Some html \<and>
         code_snippet (snd (update_input_data env s)) = Some code \<and>
         cli_command (snd (update_input_data env s)) = Some cli \<and>
         output_title (snd (update_input_data env s)) = Some quicklook_title \<and>
         swarmpal_quicklook (snd (update_input_data env s)) =
           (if truthy env d1 then Some fig else swarmpal_quicklook s) \<and>
         cache (snd (update_input_data env s)) = cache s"
proof (cases "truthy env d1")
  case True
  with plot have "quicklook env d1 (start_end (gui_widgets s)) = Inr fig" by simp
  with True tab cfg fetch proc html code cli show ?thesis
    by (simp add: update_input_data_def fetch_try_def show_fetched_def update_analysis_def
        analysis_try_def render_views_def render_plot_def except_finally_def deepcopy_def
        run_processes_def Let_def nth_append)
next
  case False
  with tab cfg fetch proc html code cli show ?thesis
    by (simp add: update_input_data_def fetch_try_def show_fetched_def update_analysis_def
        analysis_try_def render_views_def render_plot_def except_finally_def deepcopy_def
        run_processes_def Let_def nth_append)
qed

text \<open>The precache when nothing raises, and when its fetch raises.\<close>

lemma populate_success:
  assumes "cache s cache_key = None"
    and "fetch_data env (fetch_calls s) default_config = Inr d"
    and "apply_processes env d (process_params default_config) = (d1, None)"
    and "quicklook env d1 (''2026-01-01T00:00:00'', ''2026-01-02T00:00:00'') = Inr fig"
    and "repr_html env d1 = Inr html"
  shows "populate_tfa_cache env s =
           s\<lparr> heap := heap s @ [d, d1],
              fetch_calls := Suc (fetch_calls s),
              process_calls := Suc (process_calls s),
              cache := (cache s)(cache_key \<mapsto>
                \<lparr> c_raw_data = Some (length (heap s)),
                  c_data = Some (Suc (length (heap s))),
                  c_figure = Some fig,
                  c_data_view = Some html,
                  c_code_snippet = Some ''# Code snippet will be generated on first use'',
                  c_cli_command = Some ''# CLI command will be generated on first use'' \<rparr>) \<rparr>"
  using assms
  by (simp add: populate_tfa_cache_def deepcopy_def run_processes_def Let_def nth_append)

lemma populate_fetch_fails:
  assumes "cache s cache_key = None"
    and "fetch_data env (fetch_calls s) default_config = Inl e"
  shows "populate_tfa_cache env s = s\<lparr>fetch_calls := Suc (fetch_calls s)\<rparr>"
  using assms by (simp add: populate_tfa_cache_def)

lemma populate_keeps_entry:
  "cache s cache_key = Some c \<Longrightarrow> populate_tfa_cache env s = s"
  by (simp add: populate_tfa_cache_def)

lemma default_widgets_snippets:
  assumes "gui_widgets s = widgets" and "data_tabs s = None"
  shows "get_vires_code env s = vires_template env widgets default_config"
    and "get_cli env s = cli_template env widgets default_config"
    and "\<not> using_cdf_input s"
    and "start_end (gui_widgets s) = (''2026-01-01T00:00:00'', ''2026-01-02T00:00:00'')"
  using assms default_widgets_config [OF assms, of env]
  by (simp_all add: get_vires_code_def get_cli_def using_cdf_input_def widgets_def)

lemma TFA_GUI_init_fresh:
  assumes "cache s0 cache_key = None"
  shows "TFA_GUI_init env w s0 = load_initial_data env (new_gui w s0)"
  using assms by (simp add: TFA_GUI_init_def Let_def)

lemma new_gui_panes [simp]:
  "swarmpal_quicklook (new_gui w s) = None" "raw_data (new_gui w s) = None"
  "data (new_gui w s) = None" "data_view (new_gui w s) = None"
  by (simp_all add: new_gui_def)

text \<open>The first session of a process whose cache slot is empty, when nothing raises.\<close>

lemma TFA_GUI_init_success:
  assumes none: "cache s0 cache_key = None"
    and fetch: "fetch_data env (fetch_calls s0) default_config = Inr d"
    and proc: "apply_processes env d (process_params default_config) = (d1, None)"
    and html: "repr_html env d1 = Inr html"
    and code: "vires_template env widgets default_config = Inr code"
    and cli: "cli_template env widgets default_config = Inr cli"
    and plot: "truthy env d1 \<longrightarrow>
                 quicklook env d1 (''2026-01-01T00:00:00'', ''2026-01-02T00:00:00'') = Inr fig"
  shows "raw_data (TFA_GUI_init env widgets s0) = Some (length (heap s0)) \<and>
         data (TFA_GUI_init env widgets s0) = Some (length (heap s0) + 2) \<and>
         heap (TFA_GUI_init env widgets s0) = heap s0 @ [d, d1, d1] \<and>
         fetch_calls (TFA_GUI_init env widgets s0) = Suc (fetch_calls s0) \<and>
         process_calls (TFA_GUI_init env widgets s0) = process_calls s0 + 2 \<and>
         data_view (TFA_GUI_init env widgets s0) = Some html \<and>
         code_snippet (TFA_GUI_init env widgets s0) = Some code \<and>
         cli_command (TFA_GUI_init env widgets s0) = Some cli \<and>
         swarmpal_quicklook (TFA_GUI_init env widgets s0) =
           (if truthy env d1 then Some fig else None) \<and>
         cache (TFA_GUI_init env widgets s0) =
           (cache s0)(cache_key \<mapsto>
             \<lparr> c_raw_data = Some (length (heap s0)),
               c_data = Some (length (heap s0) + 2),
               c_figure = (if truthy env d1 then Some fig else None),
               c_data_view = Some html,
               c_code_snippet = Some code,
               c_cli_command = Some cli \<rparr>)"
proof -
  let ?l = "log ''Starting TFA dashboard...'' ''info'' (new_gui widgets s0)"
  have w: "gui_widgets ?l = widgets" "data_tabs ?l = None" by simp_all
  note sn = default_widgets_snippets [OF w]
  have cfg: "make_config env ?l = Inr default_config"
    by (rule default_widgets_config [OF w])
  have f: "fetch_data env (fetch_calls ?l) default_config = Inr d" using fetch by simp
  have c: "get_vires_code env ?l = Inr code" "get_cli env ?l = Inr cli"
    using sn code cli by simp_all
  have p: "truthy env d1 \<longrightarrow> quicklook env d1 (start_end (gui_widgets ?l)) = Inr fig"
    using plot sn(4) by simp
  note u = update_input_data_success [OF sn(3) cfg f proc html c p]
  from u have ok: "fst (update_input_data env ?l) = None" by simp
  show ?thesis
    using u by (simp add: TFA_GUI_init_fresh [OF none] load_initial_data_result ok entry_of_def)
qed

lemma TFA_GUI_init_fetch_calls:
  fixes s0 :: "('d, 'f) tfa_gui" and env :: "('d, 'f) tfa_env"
  assumes "cache s0 cache_key = None"
  shows "fetch_calls (TFA_GUI_init env widgets s0) = Suc (fetch_calls s0)"
proof -
  let ?l = "log ''Starting TFA dashboard...'' ''info'' (new_gui widgets s0)"
  have guard: "\<not> (using_cdf_input ?l \<and> file_dropper_value (gui_widgets ?l) = [])"
    by (simp add: using_cdf_input_def)
  have cfg: "make_config env ?l = Inr default_config"
    by (rule default_widgets_config) simp_all
  from update_input_data_fetch_calls [OF guard cfg]
    load_initial_data_fields [of env "new_gui widgets s0"]
  show ?thesis by (simp add: TFA_GUI_init_fresh [OF assms])
qed

lemma TFA_GUI_init_raise:
  fixes s0 :: "('d, 'f) tfa_gui" and env :: "('d, 'f) tfa_env"
  assumes "cache s0 cache_key = None"
    and "fst (update_input_data env (log ''Starting TFA dashboard...'' ''info'' (new_gui widgets s0))) = Some e"
  shows "cache (TFA_GUI_init env widgets s0) = cache s0"
  using assms update_input_data_cache [of env "log ''Starting TFA dashboard...'' ''info'' (new_gui widgets s0)"]
  by (simp add: TFA_GUI_init_fresh load_initial_data_result)

lemma update_input_data_fetch_fails:
  assumes "\<not> using_cdf_input s"
    and "make_config env s = Inr cfg"
    and "fetch_data env (fetch_calls s) cfg = Inl e"
  shows "fst (update_input_data env s) = Some e \<and>
         raw_data (snd (update_input_data env s)) = raw_data s \<and>
         data (snd (update_input_data env s)) = data s \<and>
         swarmpal_quicklook (snd (update_input_data env s)) = swarmpal_quicklook s \<and>
         data_view (snd (update_input_data env s)) = data_view s \<and>
         heap (snd (update_input_data env s)) = heap s \<and>
         process_calls (snd (update_input_data env s)) = process_calls s \<and>
         cache (snd (update_input_data env s)) = cache s"
  using assms
  by (simp add: update_input_data_def fetch_try_fetch_fails [OF assms(2,3)] except_finally_def)

lemma TFA_GUI_init_fetch_fails:
  fixes s0 :: "('d, 'f) tfa_gui" and env :: "('d, 'f) tfa_env"
  assumes "cache s0 cache_key = None"
    and "fetch_data env (fetch_calls s0) default_config = Inl e"
  shows "raw_data (TFA_GUI_init env widgets s0) = None \<and>
         data (TFA_GUI_init env widgets s0) = None \<and>
         swarmpal_quicklook (TFA_GUI_init env widgets s0) = None \<and>
         data_view (TFA_GUI_init env widgets s0) = None \<and>
         heap (TFA_GUI_init env widgets s0) = heap s0 \<and>
         process_calls (TFA_GUI_init env widgets s0) = process_calls s0 \<and>
         cache (TFA_GUI_init env widgets s0) = cache s0"
proof -
  let ?l = "log ''Starting TFA dashboard...'' ''info'' (new_gui widgets s0)"
  have w: "gui_widgets ?l = widgets" "data_tabs ?l = None" by simp_all
  note sn = default_widgets_snippets [OF w]
  have cfg: "make_config env ?l = Inr default_config"
    by (rule default_widgets_config [OF w])
  have f: "fetch_data env (fetch_calls ?l) default_config = Inl e" using assms(2) by simp
  note u = update_input_data_fetch_fails [OF sn(3) cfg f]
  from u have r: "fst (update_input_data env ?l) = Some e" by simp
  show ?thesis
    using u by (simp add: TFA_GUI_init_fresh [OF assms(1)] load_initial_data_result r)
qed

lemma module_load_restores_precache:
  fixes s0 :: "('d, 'f) tfa_gui" and env :: "('d, 'f) tfa_env"
  assumes "cache s0 cache_key = None"
    and "fetch_data env (fetch_calls s0) default_config = Inr d"
    and "apply_processes env d (process_params default_config) = (d1, None)"
    and "quicklook env d1 (''2026-01-01T00:00:00'', ''2026-01-02T00:00:00'') = Inr fig"
    and "repr_html env d1 = Inr html"
  shows "populate_tfa_cache env s0 =
           s0\<lparr> heap := heap s0 @ [d, d1],
               fetch_calls := Suc (fetch_calls s0),
               process_calls := Suc (process_calls s0),
               cache := (cache s0)(cache_key \<mapsto>
                    \<lparr> c_raw_data = Some (length (heap s0)),
                      c_data = Some (Suc (length (heap s0))),
                      c_figure = Some fig,
                      c_data_view = Some html,
                      c_code_snippet = Some ''# Code snippet will be generated on first use'',
                      c_cli_command = Some ''# CLI command will be generated on first use'' \<rparr>) \<rparr> \<and>
         raw_data (module_load env s0) = Some (length (heap s0)) \<and>
         data (module_load env s0) = Some (Suc (length (heap s0))) \<and>
         heap (module_load env s0) = heap s0 @ [d, d1] \<and>
         swarmpal_quicklook (module_load env s0) = Some fig \<and>
         data_view (module_load env s0) = Some html \<and>
         code_snippet (module_load env s0) = Some ''# Code snippet will be generated on first use'' \<and>
         cli_command (module_load env s0) = Some ''# CLI command will be generated on first use'' \<and>
         fetch_calls (module_load env s0) = Suc (fetch_calls s0) \<and>
         process_calls (module_load env s0) = Suc (process_calls s0)"
proof -
  note p = populate_success [OF assms]
  have c: "cache (populate_tfa_cache env s0) cache_key =
      Some \<lparr> c_raw_data = Some (length (heap s0)),
                      c_data = Some (Suc (length (heap s0))),
                      c_figure = Some fig,
                      c_data_view = Some html,
                      c_code_snippet = Some ''# Code snippet will be generated on first use'',
                      c_cli_command = Some ''# CLI command will be generated on first use'' \<rparr>"
    by (simp add: p)
  from TFA_GUI_init_restore [OF c, of env widgets] show ?thesis
    by (simp add: module_load_def) (simp add: p)
qed

lemma module_load_fetches_twice:
  fixes s0 :: "('d, 'f) tfa_gui" and env :: "('d, 'f) tfa_env"
  assumes "cache s0 cache_key = None"
    and "cache (populate_tfa_cache env s0) cache_key = None"
  shows "module_load env s0 =
           load_initial_data env (new_gui widgets (populate_tfa_cache env s0)) \<and>
         fetch_calls (module_load env s0) = fetch_calls s0 + 2"
  using TFA_GUI_init_fetch_calls [OF assms(2), of env] populate_fetch_calls [OF assms(1), of env]
  by (simp add: module_load_def TFA_GUI_init_fresh [OF assms(2)])

lemma TFA_GUI_init_round_trip:
  fixes s0 :: "('d, 'f) tfa_gui" and env :: "('d, 'f) tfa_env"
  assumes "cache s0 cache_key = None"
    and "fetch_data env (fetch_calls s0) default_config = Inr d"
    and "apply_processes env d (process_params default_config) = (d1, None)"
    and "repr_html env d1 = Inr html"
    and "vires_template env widgets default_config = Inr code"
    and "cli_template env widgets default_config = Inr cli"
    and "truthy env d1 \<longrightarrow> quicklook env d1 (''2026-01-01T00:00:00'', ''2026-01-02T00:00:00'') = Inr fig"
  shows "raw_data (TFA_GUI_init env widgets s0) = Some (length (heap s0)) \<and>
         data (TFA_GUI_init env widgets s0) = Some (length (heap s0) + 2) \<and>
         heap (TFA_GUI_init env widgets s0) = heap s0 @ [d, d1, d1] \<and>
         fetch_calls (TFA_GUI_init env widgets s0) = Suc (fetch_calls s0) \<and>
         process_calls (TFA_GUI_init env widgets s0) = process_calls s0 + 2 \<and>
         data_view (TFA_GUI_init env widgets s0) = Some html \<and>
         code_snippet (TFA_GUI_init env widgets s0) = Some code \<and>
         cli_command (TFA_GUI_init env widgets s0) = Some cli \<and>
         swarmpal_quicklook (TFA_GUI_init env widgets s0) = (if truthy env d1 then Some fig else None) \<and>
         cache (TFA_GUI_init env widgets s0) =
             (cache s0)(cache_key \<mapsto>
               \<lparr> c_raw_data = Some (length (heap s0)),
                 c_data = Some (length (heap s0) + 2),
                 c_figure = (if truthy env d1 then Some fig else None),
                 c_data_view = Some html,
                 c_code_snippet = Some code,
                 c_cli_command = Some cli \<rparr>) \<and>
         (\<forall>(env' :: ('d, 'f) tfa_env) w'.
            raw_data (TFA_GUI_init env' w' (TFA_GUI_init env widgets s0)) = Some (length (heap s0)) \<and>
            data (TFA_GUI_init env' w' (TFA_GUI_init env widgets s0)) = Some (length (heap s0) + 2) \<and>
            heap (TFA_GUI_init env' w' (TFA_GUI_init env widgets s0)) = heap s0 @ [d, d1, d1] \<and>
            fetch_calls (TFA_GUI_init env' w' (TFA_GUI_init env widgets s0)) = Suc (fetch_calls s0) \<and>
            process_calls (TFA_GUI_init env' w' (TFA_GUI_init env widgets s0)) = process_calls s0 + 2 \<and>
            data_view (TFA_GUI_init env' w' (TFA_GUI_init env widgets s0)) = Some html \<and>
            code_snippet (TFA_GUI_init env' w' (TFA_GUI_init env widgets s0)) = Some code \<and>
            cli_command (TFA_GUI_init env' w' (TFA_GUI_init env widgets s0)) = Some cli \<and>
            swarmpal_quicklook (TFA_GUI_init env' w' (TFA_GUI_init env widgets s0)) = (if truthy env d1 then Some fig else None) \<and>
            cache (TFA_GUI_init env' w' (TFA_GUI_init env widgets s0)) = cache (TFA_GUI_init env widgets s0))"
proof -
  note t = TFA_GUI_init_success [OF assms]
  have c: "cache (TFA_GUI_init env widgets s0) cache_key =
      Some \<lparr> c_raw_data = Some (length (heap s0)),
                 c_data = Some (length (heap s0) + 2),
                 c_figure = (if truthy env d1 then Some fig else None),
                 c_data_view = Some html,
                 c_code_snippet = Some code,
                 c_cli_command = Some cli \<rparr>"
    using t by simp
  have "raw_data (TFA_GUI_init env' w' (TFA_GUI_init env widgets s0)) = Some (length (heap s0)) \<and>
        data (TFA_GUI_init env' w' (TFA_GUI_init env widgets s0)) = Some (length (heap s0) + 2) \<and>
        heap (TFA_GUI_init env' w' (TFA_GUI_init env widgets s0)) = heap s0 @ [d, d1, d1] \<and>
        fetch_calls (TFA_GUI_init env' w' (TFA_GUI_init env widgets s0)) = Suc (fetch_calls s0) \<and>
        process_calls (TFA_GUI_init env' w' (TFA_GUI_init env widgets s0)) = process_calls s0 + 2 \<and>
        data_view (TFA_GUI_init env' w' (TFA_GUI_init env widgets s0)) = Some html \<and>
        code_snippet (TFA_GUI_init env' w' (TFA_GUI_init env widgets s0)) = Some code \<and>
        cli_command (TFA_GUI_init env' w' (TFA_GUI_init env widgets s0)) = Some cli \<and>
        swarmpal_quicklook (TFA_GUI_init env' w' (TFA_GUI_init env widgets s0)) = (if truthy env d1 then Some fig else None) \<and>
        cache (TFA_GUI_init env' w' (TFA_GUI_init env widgets s0)) = cache (TFA_GUI_init env widgets s0)" for env' :: "('d, 'f) tfa_env" and w'
    using TFA_GUI_init_restore [OF c, of env' w'] t by simp
  with t show ?thesis by blast
qed

section \<open>Properties of the DSECS explorer\<close>

lemmas player_defs = setup_animated_quicklook_def resize_all_def slider_update_def
  update_animation_frame_def disable_animation_controls_def toggle_animation_def
  start_animation_def tick_def advance_frame_def set_slider_value_def Let_def

lemmas demo_defs = demo_env_def frames_012_def frames_021_def new_explorer_def
  upload_without_temp_file_def complete_upload_def

lemma update_fresh:
  "k \<notin> fst ` set al \<Longrightarrow> AList.update k v al = al @ [(k, v)]"
  by (induction al) auto

lemma fold_update_distinct:
  "distinct (map fst figs) \<Longrightarrow> fst ` set figs \<inter> fst ` set acc = {} \<Longrightarrow>
   fold (\<lambda>(k, f) r. AList.update k (g f) r) figs acc = acc @ map (\<lambda>(k, f). (k, g f)) figs"
proof (induction figs arbitrary: acc)
  case Nil
  then show ?case by simp
next
  case (Cons p figs)
  obtain k f where p: "p = (k, f)" by (cases p)
  from Cons.prems p have fresh: "k \<notin> fst ` set acc" by auto
  have disj: "fst ` set figs \<inter> fst ` set (acc @ [(k, g f)]) = {}"
    using Cons.prems p by auto
  from Cons.prems have "distinct (map fst figs)" by simp
  from Cons.IH [OF this disj] show ?case
    by (simp add: p update_fresh [OF fresh])
qed

lemma resize_all_distinct:
  "distinct (map fst figs) \<Longrightarrow>
   resize_all env figs = map (\<lambda>(k, f). (k, fst (resize_figure env f))) figs"
  using fold_update_distinct [of figs "[]" "\<lambda>f. fst (resize_figure env f)"]
  by (simp add: resize_all_def)

lemma keys_resized [simp]:
  "map fst (map (\<lambda>(k, f). (k, g f)) figs) = map fst figs"
  by (induction figs) auto

lemma list_index_nth:
  "distinct ks \<Longrightarrow> i < length ks \<Longrightarrow> list_index ks (ks ! i) = i"
proof (induction ks arbitrary: i)
  case Nil
  then show ?case by simp
next
  case (Cons k ks)
  show ?case
  proof (cases i)
    case 0
    then show ?thesis by simp
  next
    case (Suc j)
    with Cons.prems have "ks ! j \<in> set ks" "k \<notin> set ks" by auto
    then have "k \<noteq> ks ! j" by auto
    with Suc Cons show ?thesis by simp
  qed
qed

lemma sorted_Min_first:
  "sorted ks \<Longrightarrow> ks \<noteq> [] \<Longrightarrow> Min (set ks) = ks ! 0"
  by (cases ks) (auto intro!: Min_eqI)

lemma sorted_Max_last:
  "sorted ks \<Longrightarrow> ks \<noteq> [] \<Longrightarrow> Max (set ks) = ks ! (length ks - 1)"
proof -
  assume s: "sorted ks" and n: "ks \<noteq> []"
  have "Max (set ks) = last ks"
  proof (rule Max_eqI)
    show "finite (set ks)" by simp
    show "last ks \<in> set ks" using n by simp
    fix y assume "y \<in> set ks"
    then obtain i where i: "i < length ks" "ks ! i = y" by (auto simp: in_set_conv_nth)
    with s n have "ks ! i \<le> ks ! (length ks - 1)"
      by (intro sorted_nth_mono) auto
    with i n show "y \<le> last ks" by (simp add: last_conv_nth)
  qed
  with n show ?thesis by (simp add: last_conv_nth)
qed

lemma set_slider_value_proj [simp]:
  "slider_value (frame_slider (set_slider_value v s)) = v"
  "animation_playing (set_slider_value v s) = animation_playing s"
  "animation_callback (set_slider_value v s) = animation_callback s"
  "animation_figures (set_slider_value v s) = animation_figures s"
  by (auto simp: set_slider_value_def update_animation_frame_def split: option.splits)

lemma tick_value:
  assumes "animation_playing s" and "animation_callback s = Some cb"
  shows "slider_value (frame_slider (tick s)) =
           cb_frames cb !
             (((if slider_value (frame_slider s) \<in> set (cb_frames cb)
                then list_index (cb_frames cb) (slider_value (frame_slider s)) else 0) + 1)
              mod length (cb_frames cb))"
  using assms by (simp add: tick_def advance_frame_def Let_def)

lemma keys_image_resized [simp]:
  "(\<lambda>x. fst (case x of (k, f) \<Rightarrow> (k, g f))) ` A = fst ` A"
  by force

lemma setup_nonempty:
  assumes d: "distinct (map fst figs)" and n: "figs \<noteq> []"
  shows "setup_animated_quicklook env figs s =
           (slider_update (Min (fst ` set figs)) (Max (fst ` set figs)) (Min (fst ` set figs)) False
              (s\<lparr>animation_figures := map (\<lambda>(k, f). (k, fst (resize_figure env f))) figs\<rparr>))
             \<lparr>play_button_disabled := False,
              swarmpal_animated :=
                map_of (map (\<lambda>(k, f). (k, fst (resize_figure env f))) figs)
                  (Min (fst ` set figs))\<rparr>"
  using n by (simp add: setup_animated_quicklook_def resize_all_distinct [OF d] Let_def)

lemma slider_update_proj [simp]:
  "frame_slider (slider_update st en v dis s) =
     \<lparr>slider_start = st, slider_end = en, slider_value = v, slider_disabled = dis\<rparr>"
  "animation_playing (slider_update st en v dis s) = animation_playing s"
  "animation_callback (slider_update st en v dis s) = animation_callback s"
  "animation_figures (slider_update st en v dis s) = animation_figures s"
  "play_button_disabled (slider_update st en v dis s) = play_button_disabled s"
  by (auto simp: slider_update_def update_animation_frame_def Let_def split: option.splits)

lemma map_of_resized_Min:
  assumes "figs \<noteq> []"
  shows "map_of (map (\<lambda>(k, f). (k, g f)) figs) (Min (fst ` set figs)) \<noteq> None"
proof -
  have "Min (fst ` set figs) \<in> fst ` set figs"
    using assms by (intro Min_in) auto
  then have "Min (fst ` set figs) \<in> fst ` set (map (\<lambda>(k, f). (k, g f)) figs)"
    by force
  then show ?thesis by (simp only: map_of_eq_None_iff not_not)
qed

lemma playing_012_state:
  "animation_playing playing_012 \<and>
   animation_callback playing_012 = Some \<lparr>cb_period = 1200, cb_frames = [0, 1, 2]\<rparr> \<and>
   slider_value (frame_slider playing_012) = 0"
  by (simp add: playing_012_def player_defs demo_defs)




text \<open>When \<open>filename\<close> has been assigned, the clause completes and names the file.\<close>

lemma load_netcdf_data_handled:
  assumes "netcdf_dropper_value s \<noteq> []" and "load_try env s = (Some name, Some e, s')"
  shows "load_netcdf_data env s =
           (None,
            s'\<lparr>status_info :=
                 cross_mark @ '' **Failed to load file '' @ quoted name @ '':** '' @
                 exn_str e @ ''<br><details><summary>Click for details</summary><pre>'' @
                 ds_format_exc env e @ ''</pre></details>''\<rparr>)"
  using assms by (simp add: load_netcdf_data_def)




section \<open>The claims\<close>

text \<open>
  C5. When \<open>update_analysis\<close> is called with no raw data, it returns without raising, the
  title pane shows the request to fetch data first, a warning is logged, and the cache,
  the raw and processed handles, the heap, the plot, the data view, both snippets and
  both call counters are unchanged.
\<close>

theorem update_analysis_no_data:
  assumes "raw_data s = None"
  shows "fst (update_analysis env title s) = None \<and>
         output_title (snd (update_analysis env title s)) = Some ''Please fetch data first'' \<and>
         log_messages (snd (update_analysis env title s)) =
           log_messages s @ [\<lparr>color = ''#f39c12'', message = ''No data available for analysis''\<rparr>] \<and>
         cache (snd (update_analysis env title s)) = cache s \<and>
         raw_data (snd (update_analysis env title s)) = None \<and>
         data (snd (update_analysis env title s)) = data s \<and>
         heap (snd (update_analysis env title s)) = heap s \<and>
         swarmpal_quicklook (snd (update_analysis env title s)) = swarmpal_quicklook s \<and>
         data_view (snd (update_analysis env title s)) = data_view s \<and>
         code_snippet (snd (update_analysis env title s)) = code_snippet s \<and>
         cli_command (snd (update_analysis env title s)) = cli_command s \<and>
         is_loading (snd (update_analysis env title s)) = is_loading s \<and>
         fetch_calls (snd (update_analysis env title s)) = fetch_calls s \<and>
         process_calls (snd (update_analysis env title s)) = process_calls s"
  using assms by (simp add: update_analysis_def level_color_def)

theorem update_analysis_no_data_witness:
  "raw_data empty_gui = None \<and>
   fst (update_analysis ok_env quicklook_title empty_gui) = None \<and>
   output_title (snd (update_analysis ok_env quicklook_title empty_gui)) =
     Some ''Please fetch data first'' \<and>
   data_view (snd (update_analysis ok_env quicklook_title empty_gui)) = None \<and>
   fetch_calls (snd (update_analysis ok_env quicklook_title empty_gui)) = 0"
  using update_analysis_no_data [of empty_gui ok_env quicklook_title]
  by (simp add: empty_gui_def)

text \<open>
  C1. Amended. Let the guard of \<open>update_input_data\<close> pass and the configuration be built.
  When the fetch raises, the call raises the same exception, the cache, the raw and
  processed handles and the heap are unchanged, the loading indicator is cleared and the
  error is logged twice at level error. When the fetch returns and a processing step
  raises, the call raises that exception, the cache is unchanged and the error is logged
  in the same way, and the handles are bound to two new objects: the raw handle to the
  fetched dataset, the processed handle to its copy as the failed step left it; the
  objects the handles referred to before are still in the heap, unchanged.
\<close>

theorem update_input_data_failure:
  assumes guard: "\<not> (using_cdf_input s \<and> file_dropper_value (gui_widgets s) = [])"
    and cfg: "make_config env s = Inr cfg"
  shows "(\<forall>e. fetch_data env (fetch_calls s) cfg = Inl e \<longrightarrow>
            fst (update_input_data env s) = Some e \<and>
            cache (snd (update_input_data env s)) = cache s \<and>
            raw_data (snd (update_input_data env s)) = raw_data s \<and>
            data (snd (update_input_data env s)) = data s \<and>
            heap (snd (update_input_data env s)) = heap s \<and>
            is_loading (snd (update_input_data env s)) = False \<and>
            log_messages (snd (update_input_data env s)) =
              log_messages s @
                [\<lparr>color = ''#2c3e50'', message = ''Fetching input data...''\<rparr>,
                 \<lparr>color = ''#e74c3c'', message = ''Error fetching data: '' @ exn_str e\<rparr>,
                 \<lparr>color = ''#e74c3c'', message = format_exc env e\<rparr>]) \<and>
         (\<forall>d d' e. fetch_data env (fetch_calls s) cfg = Inr d \<and>
              apply_processes env d (process_params cfg) = (d', Some e) \<longrightarrow>
            fst (update_input_data env s) = Some e \<and>
            cache (snd (update_input_data env s)) = cache s \<and>
            raw_data (snd (update_input_data env s)) = Some (length (heap s)) \<and>
            data (snd (update_input_data env s)) = Some (Suc (length (heap s))) \<and>
            heap (snd (update_input_data env s)) = heap s @ [d, d'] \<and>
            is_loading (snd (update_input_data env s)) = False \<and>
            log_messages (snd (update_input_data env s)) =
              log_messages s @
                [\<lparr>color = ''#2c3e50'', message = ''Fetching input data...''\<rparr>,
                 \<lparr>color = ''#2c3e50'', message = ''Applying processes...''\<rparr>,
                 \<lparr>color = ''#e74c3c'', message = ''Error fetching data: '' @ exn_str e\<rparr>,
                 \<lparr>color = ''#e74c3c'', message = format_exc env e\<rparr>])"
proof (intro conjI allI impI)
  fix e
  assume f: "fetch_data env (fetch_calls s) cfg = Inl e"
  note ft = fetch_try_fetch_fails [OF cfg f]
  note ui = update_input_data_unfold [OF guard, of env]
  show "fst (update_input_data env s) = Some e" by (simp add: ui ft)
  show "cache (snd (update_input_data env s)) = cache s" by (simp add: ui ft)
  show "raw_data (snd (update_input_data env s)) = raw_data s" by (simp add: ui ft)
  show "data (snd (update_input_data env s)) = data s" by (simp add: ui ft)
  show "heap (snd (update_input_data env s)) = heap s" by (simp add: ui ft)
  show "is_loading (snd (update_input_data env s)) = False" by (simp add: ui ft)
  show "log_messages (snd (update_input_data env s)) =
      log_messages s @
        [\<lparr>color = ''#2c3e50'', message = ''Fetching input data...''\<rparr>,
         \<lparr>color = ''#e74c3c'', message = ''Error fetching data: '' @ exn_str e\<rparr>,
         \<lparr>color = ''#e74c3c'', message = format_exc env e\<rparr>]"
    by (simp add: ui ft except_finally_log level_color_def)
next
  fix d d' e
  assume a: "fetch_data env (fetch_calls s) cfg = Inr d \<and>
    apply_processes env d (process_params cfg) = (d', Some e)"
  then have f: "fetch_data env (fetch_calls s) cfg = Inr d"
    and p: "apply_processes env d (process_params cfg) = (d', Some e)" by simp_all
  note fd = fetch_try_fetched [OF cfg f]
  note fp = fetch_try_process_fails [OF cfg f p]
  note ui = update_input_data_unfold [OF guard, of env]
  show "fst (update_input_data env s) = Some e" by (simp add: ui fp)
  show "cache (snd (update_input_data env s)) = cache s" by (simp add: ui fp fd)
  show "raw_data (snd (update_input_data env s)) = Some (length (heap s))"
    by (simp add: ui fp fd)
  show "data (snd (update_input_data env s)) = Some (Suc (length (heap s)))"
    by (simp add: ui fp fd)
  show "heap (snd (update_input_data env s)) = heap s @ [d, d']"
    by (simp add: ui fp fd p)
  show "is_loading (snd (update_input_data env s)) = False" by (simp add: ui fp)
  show "log_messages (snd (update_input_data env s)) =
      log_messages s @
        [\<lparr>color = ''#2c3e50'', message = ''Fetching input data...''\<rparr>,
         \<lparr>color = ''#2c3e50'', message = ''Applying processes...''\<rparr>,
         \<lparr>color = ''#e74c3c'', message = ''Error fetching data: '' @ exn_str e\<rparr>,
         \<lparr>color = ''#e74c3c'', message = format_exc env e\<rparr>]"
    by (simp add: ui fp except_finally_log)
qed

theorem update_input_data_failure_witness:
  "\<not> (using_cdf_input loaded_gui \<and> file_dropper_value (gui_widgets loaded_gui) = []) \<and>
   fst (update_input_data failing_fetch_env loaded_gui) =
     Some (Exn ''ConnectionError'' ''unreachable'') \<and>
   raw_data (snd (update_input_data failing_fetch_env loaded_gui)) = Some 0 \<and>
   data (snd (update_input_data failing_fetch_env loaded_gui)) = Some 1 \<and>
   heap (snd (update_input_data failing_fetch_env loaded_gui)) =
     [''old raw'', ''old processed''] \<and>
   fst (update_input_data failing_process_env loaded_gui) = Some (Exn ''KeyError'' ''B_NEC'') \<and>
   heap (snd (update_input_data failing_process_env loaded_gui)) =
     [''old raw'', ''old processed'', ''raw'', ''raw+TFA_Preprocess'']"
proof -
  have guard: "\<not> (using_cdf_input loaded_gui \<and> file_dropper_value (gui_widgets loaded_gui) = [])"
    by (simp add: using_cdf_input_def loaded_gui_def empty_gui_def)
  have st: "raw_data loaded_gui = Some 0" "data loaded_gui = Some 1"
    "heap loaded_gui = [''old raw'', ''old processed'']"
    by (simp_all add: loaded_gui_def empty_gui_def)
  have f1: "fetch_data failing_fetch_env (fetch_calls loaded_gui) cfg =
      Inl (Exn ''ConnectionError'' ''unreachable'')" for cfg
    by (simp add: failing_fetch_env_def ok_env_def)
  have f2: "fetch_data failing_process_env (fetch_calls loaded_gui) cfg = Inr ''raw''" for cfg
    by (simp add: failing_process_env_def ok_env_def)
  have p2: "apply_processes failing_process_env ''raw'' ps =
      (''raw+TFA_Preprocess'', Some (Exn ''KeyError'' ''B_NEC''))" for ps
    by (simp add: failing_process_env_def ok_env_def)
  from update_input_data_failure [OF guard loaded_gui_config, of failing_fetch_env]
    update_input_data_failure [OF guard loaded_gui_config, of failing_process_env]
    guard st f1 f2 p2
  show ?thesis by simp
qed

theorem update_input_data_rebinds_on_failure:
  "fst (update_input_data failing_process_env loaded_gui) = Some (Exn ''KeyError'' ''B_NEC'') \<and>
   raw_data loaded_gui = Some 0 \<and>
   raw_data (snd (update_input_data failing_process_env loaded_gui)) = Some 2 \<and>
   data loaded_gui = Some 1 \<and>
   data (snd (update_input_data failing_process_env loaded_gui)) = Some 3"
proof -
  have guard: "\<not> (using_cdf_input loaded_gui \<and> file_dropper_value (gui_widgets loaded_gui) = [])"
    by (simp add: using_cdf_input_def loaded_gui_def empty_gui_def)
  have st: "raw_data loaded_gui = Some 0" "data loaded_gui = Some 1"
    "heap loaded_gui = [''old raw'', ''old processed'']"
    by (simp_all add: loaded_gui_def empty_gui_def)
  have f2: "fetch_data failing_process_env (fetch_calls loaded_gui) cfg = Inr ''raw''" for cfg
    by (simp add: failing_process_env_def ok_env_def)
  have p2: "apply_processes failing_process_env ''raw'' ps =
      (''raw+TFA_Preprocess'', Some (Exn ''KeyError'' ''B_NEC''))" for ps
    by (simp add: failing_process_env_def ok_env_def)
  from fetch_try_fetched [OF loaded_gui_config f2]
    fetch_try_process_fails [OF loaded_gui_config f2 p2]
    update_input_data_unfold [OF guard, of failing_process_env] st
  show ?thesis by simp
qed

text \<open>
  C2. Amended. No run of \<open>update_input_data\<close>, successful or not, changes the cache
  slot. The slot is written at the start of a session: \<open>_load_initial_data\<close> stores the
  raw and processed handles and the rendered artifacts of the session under the key
  \<open>tfa_precache\<close> when its call of \<open>update_input_data\<close> returned without raising, and
  leaves the cache as it was when that call raised.
\<close>

theorem update_input_data_leaves_cache:
  "cache (snd (update_input_data env s)) = cache s \<and>
   cache (load_initial_data env s) =
     (case fst (update_input_data env (log ''Starting TFA dashboard...'' ''info'' s)) of
        None \<Rightarrow>
          (cache s)(cache_key \<mapsto>
             entry_of (snd (update_input_data env (log ''Starting TFA dashboard...'' ''info'' s))))
      | Some e \<Rightarrow> cache s)"
proof -
  have c: "cache (snd (update_input_data env t)) = cache t" for t
    by (rule update_input_data_cache)
  show ?thesis
    by (simp add: load_initial_data_result c split: option.splits)
qed

theorem successful_fetch_creates_no_entry:
  "fst (update_input_data ok_env empty_gui) = None \<and>
   cache empty_gui cache_key = None \<and>
   cache (snd (update_input_data ok_env empty_gui)) cache_key = None"
  using ok_env_update_input_data [of empty_gui] update_input_data_cache [of ok_env empty_gui]
  by (simp add: empty_gui_def)

theorem update_input_data_leaves_cache_witness:
  "cache (snd (update_input_data ok_env empty_gui)) cache_key = None \<and>
   cache (load_initial_data ok_env empty_gui) cache_key =
     Some (entry_of (snd (update_input_data ok_env
                            (log ''Starting TFA dashboard...'' ''info'' empty_gui))))"
  using update_input_data_leaves_cache [of ok_env empty_gui]
    ok_env_update_input_data [of "log ''Starting TFA dashboard...'' ''info'' empty_gui"]
  by (simp add: empty_gui_def)

text \<open>
  C3. Amended. An exception raised inside the \<open>try\<close> block of \<open>update_analysis\<close> or of
  \<open>update_input_data\<close> is caught there, two entries at level error are appended to the
  log (the message and the traceback), the loading indicator is cleared, and the
  exception is raised again: the handler ends with the exception its \<open>try\<close> block ended
  with. So whenever one of the two handlers raises, the log ends with these two entries
  and the indicator is off.
\<close>

theorem handlers_log_and_reraise:
  "(\<forall>r. raw_data s = Some r \<longrightarrow>
      fst (update_analysis env title s) = fst (analysis_try env title r s)) \<and>
   (\<forall>e. \<not> (using_cdf_input s \<and> file_dropper_value (gui_widgets s) = []) \<and>
        fst (fetch_try env s) = Some e \<longrightarrow>
      fst (update_input_data env s) = Some e) \<and>
   (\<forall>e. fst (update_analysis env title s) = Some e \<longrightarrow>
      is_loading (snd (update_analysis env title s)) = False \<and>
      (\<exists>msgs. log_messages (snd (update_analysis env title s)) =
         msgs @ [\<lparr>color = ''#e74c3c'', message = ''Error during analysis: '' @ exn_str e\<rparr>,
                 \<lparr>color = ''#e74c3c'', message = format_exc env e\<rparr>])) \<and>
   (\<forall>e. fst (update_input_data env s) = Some e \<longrightarrow>
      is_loading (snd (update_input_data env s)) = False \<and>
      (\<exists>msgs intro. (intro = ''Error fetching data: '' \<or> intro = ''Error during analysis: '') \<and>
         log_messages (snd (update_input_data env s)) =
           msgs @ [\<lparr>color = ''#e74c3c'', message = intro @ exn_str e\<rparr>,
                   \<lparr>color = ''#e74c3c'', message = format_exc env e\<rparr>]))"
proof (intro conjI allI impI)
  fix r assume "raw_data s = Some r"
  then show "fst (update_analysis env title s) = fst (analysis_try env title r s)"
    by (simp add: update_analysis_def)
next
  fix e
  assume "\<not> (using_cdf_input s \<and> file_dropper_value (gui_widgets s) = []) \<and>
    fst (fetch_try env s) = Some e"
  then show "fst (update_input_data env s) = Some e"
    using update_input_data_unfold [of s env] by simp
next
  fix e assume "fst (update_analysis env title s) = Some e"
  from update_analysis_error [OF this]
  show "is_loading (snd (update_analysis env title s)) = False"
    and "\<exists>msgs. log_messages (snd (update_analysis env title s)) =
         msgs @ [\<lparr>color = ''#e74c3c'', message = ''Error during analysis: '' @ exn_str e\<rparr>,
                 \<lparr>color = ''#e74c3c'', message = format_exc env e\<rparr>]"
    by simp_all
next
  fix e assume raised: "fst (update_input_data env s) = Some e"
  then have guard: "\<not> (using_cdf_input s \<and> file_dropper_value (gui_widgets s) = [])"
    by (auto simp: update_input_data_def)
  note ui = update_input_data_unfold [OF guard, of env]
  let ?t = "set_loading False (snd (fetch_try env s))"
  have both: "is_loading (snd (update_input_data env s)) = False \<and>
      (\<exists>msgs intro. (intro = ''Error fetching data: '' \<or> intro = ''Error during analysis: '') \<and>
         log_messages (snd (update_input_data env s)) =
           msgs @ [\<lparr>color = ''#e74c3c'', message = intro @ exn_str e\<rparr>,
                   \<lparr>color = ''#e74c3c'', message = format_exc env e\<rparr>])"
  proof (cases "fst (fetch_try env s)")
    case None
    with raised ui have "fst (update_analysis env quicklook_title ?t) = Some e" by simp
    from update_analysis_error [OF this] None ui show ?thesis by auto
  next
    case (Some e')
    with raised ui have "e' = e" by simp
    with Some ui show ?thesis
      by (auto simp: except_finally_log)
  qed
  from both show "is_loading (snd (update_input_data env s)) = False" by simp
  from both show "\<exists>msgs intro.
      (intro = ''Error fetching data: '' \<or> intro = ''Error during analysis: '') \<and>
      log_messages (snd (update_input_data env s)) =
        msgs @ [\<lparr>color = ''#e74c3c'', message = intro @ exn_str e\<rparr>,
                \<lparr>color = ''#e74c3c'', message = format_exc env e\<rparr>]" by simp
qed

theorem handlers_log_and_reraise_witness:
  "raw_data loaded_gui = Some 0 \<and>
   fst (update_analysis failing_process_env quicklook_title loaded_gui) =
     Some (Exn ''KeyError'' ''B_NEC'') \<and>
   is_loading (snd (update_analysis failing_process_env quicklook_title loaded_gui)) = False \<and>
   (\<exists>msgs. log_messages (snd (update_analysis failing_process_env quicklook_title loaded_gui)) =
      msgs @ [\<lparr>color = ''#e74c3c'', message = ''Error during analysis: B_NEC''\<rparr>,
              \<lparr>color = ''#e74c3c'', message = ''Traceback: B_NEC''\<rparr>])"
proof -
  have raw: "raw_data loaded_gui = Some 0" by (simp add: loaded_gui_def empty_gui_def)
  have fe: "format_exc failing_process_env e = ''Traceback: '' @ exn_str e" for e
    by (simp add: failing_process_env_def ok_env_def)
  note h = handlers_log_and_reraise [of loaded_gui failing_process_env quicklook_title]
  from h raw failing_process_analysis_try
  have raised: "fst (update_analysis failing_process_env quicklook_title loaded_gui) =
      Some (Exn ''KeyError'' ''B_NEC'')" by simp
  with h raw fe show ?thesis by simp
qed

theorem update_analysis_reraises:
  "fst (update_analysis failing_process_env quicklook_title loaded_gui) =
     Some (Exn ''KeyError'' ''B_NEC'')"
  using failing_process_analysis_try
  by (simp add: update_analysis_def loaded_gui_def empty_gui_def)

text \<open>
  C7. Amended. Let the frame dictionary passed to \<open>_setup_animated_quicklook\<close> have
  distinct keys. The stored frame set is the dictionary with every figure resized, and
  the playing flag and the timer are left as they were: a player that was playing keeps
  playing. When the dictionary is not empty, the slider's range is set to the least and
  greatest key, its value to the least key, both controls are enabled and the figure of
  the least key is displayed. When it is empty, the slider and the play button are
  disabled and the placeholder figure is displayed.
\<close>

theorem setup_animated_quicklook_resets:
  assumes "distinct (map fst figs)"
  shows "animation_playing (setup_animated_quicklook env figs s) = animation_playing s \<and>
         animation_callback (setup_animated_quicklook env figs s) = animation_callback s \<and>
         animation_figures (setup_animated_quicklook env figs s) =
           map (\<lambda>(k, f). (k, fst (resize_figure env f))) figs \<and>
         (figs \<noteq> [] \<longrightarrow>
            frame_slider (setup_animated_quicklook env figs s) =
              \<lparr>slider_start = Min (fst ` set figs), slider_end = Max (fst ` set figs),
               slider_value = Min (fst ` set figs), slider_disabled = False\<rparr> \<and>
            \<not> play_button_disabled (setup_animated_quicklook env figs s) \<and>
            swarmpal_animated (setup_animated_quicklook env figs s) =
              map_of (animation_figures (setup_animated_quicklook env figs s))
                (Min (fst ` set figs)) \<and>
            swarmpal_animated (setup_animated_quicklook env figs s) \<noteq> None) \<and>
         (figs = [] \<longrightarrow>
            slider_disabled (frame_slider (setup_animated_quicklook env figs s)) \<and>
            play_button_disabled (setup_animated_quicklook env figs s) \<and>
            swarmpal_animated (setup_animated_quicklook env figs s) = Some (pending_figure env))"
proof (cases "figs = []")
  case True
  then show ?thesis
    by (simp add: setup_animated_quicklook_def resize_all_def disable_animation_controls_def)
next
  case False
  from setup_nonempty [OF assms False, of env s] map_of_resized_Min [OF False] False
  show ?thesis by simp
qed

theorem setup_animated_quicklook_resets_witness:
  "distinct (map fst frames_021) \<and>
   frame_slider (setup_animated_quicklook demo_env frames_021 new_explorer) =
     \<lparr>slider_start = 0, slider_end = 2, slider_value = 0, slider_disabled = False\<rparr> \<and>
   swarmpal_animated (setup_animated_quicklook demo_env frames_021 new_explorer) =
     Some ''f0 12x8'' \<and>
   \<not> animation_playing (setup_animated_quicklook demo_env frames_021 new_explorer) \<and>
   slider_disabled (frame_slider (setup_animated_quicklook demo_env [] new_explorer)) \<and>
   swarmpal_animated (setup_animated_quicklook demo_env [] new_explorer) =
     Some ''Processing...''"
proof -
  have d: "distinct (map fst frames_021)" by (simp add: frames_021_def)
  have d0: "distinct (map fst ([] :: (int \<times> string) list))" by simp
  from setup_animated_quicklook_resets [OF d, of demo_env new_explorer]
    setup_animated_quicklook_resets [OF d0, of demo_env new_explorer] d
  show ?thesis
    by (simp add: frames_021_def demo_env_def new_explorer_def)
qed

theorem setup_leaves_player_playing:
  "animation_playing
     (toggle_animation (setup_animated_quicklook demo_env frames_012 new_explorer)) \<and>
   animation_playing
     (setup_animated_quicklook demo_env frames_012
        (toggle_animation (setup_animated_quicklook demo_env frames_012 new_explorer))) \<and>
   animation_callback
     (setup_animated_quicklook demo_env frames_012
        (toggle_animation (setup_animated_quicklook demo_env frames_012 new_explorer))) =
     Some \<lparr>cb_period = 1200, cb_frames = [0, 1, 2]\<rparr>"
  by (simp add: player_defs demo_defs)

text \<open>
  C8. Amended. In the Playing state a tick of the 1200 ms timer moves the slider to the
  key that follows the current one in the insertion order of the frame dictionary as
  the timer captured it, going from the last inserted key back to the first; a current
  value that is not a key counts as the first key. When the keys were inserted in
  ascending order this is the cyclic order of the keys, and the tick after the greatest
  key gives the least. Toggling while stopped, with frames present, starts a timer of
  period 1200 on the keys in insertion order; toggling while playing stops the player
  and removes the timer, so that a tick changes nothing. An assignment to the slider
  sets the current index whatever the play state is, leaves play state and timer alone
  and displays the frame when the index is a key.
\<close>

theorem animation_player_steps:
  "(animation_playing s \<and> animation_callback s = Some cb \<and> distinct (cb_frames cb) \<and>
    i < length (cb_frames cb) \<and> slider_value (frame_slider s) = cb_frames cb ! i \<longrightarrow>
      slider_value (frame_slider (tick s)) = cb_frames cb ! ((i + 1) mod length (cb_frames cb))) \<and>
   (animation_playing s \<and> animation_callback s = Some cb \<and>
    slider_value (frame_slider s) \<notin> set (cb_frames cb) \<longrightarrow>
      slider_value (frame_slider (tick s)) = cb_frames cb ! (1 mod length (cb_frames cb))) \<and>
   (animation_playing s \<and> animation_callback s = Some cb \<and> distinct (cb_frames cb) \<and>
    sorted (cb_frames cb) \<and> cb_frames cb \<noteq> [] \<and>
    slider_value (frame_slider s) = Max (set (cb_frames cb)) \<longrightarrow>
      slider_value (frame_slider (tick s)) = Min (set (cb_frames cb))) \<and>
   (\<not> animation_playing s \<and> animation_figures s \<noteq> [] \<longrightarrow>
      animation_playing (toggle_animation s) \<and>
      animation_callback (toggle_animation s) =
        Some \<lparr>cb_period = 1200, cb_frames = map fst (animation_figures s)\<rparr>) \<and>
   (animation_playing s \<longrightarrow>
      \<not> animation_playing (toggle_animation s) \<and>
      animation_callback (toggle_animation s) = None \<and>
      tick (toggle_animation s) = toggle_animation s) \<and>
   slider_value (frame_slider (set_slider_value v s)) = v \<and>
   animation_playing (set_slider_value v s) = animation_playing s \<and>
   animation_callback (set_slider_value v s) = animation_callback s \<and>
   (v \<noteq> slider_value (frame_slider s) \<and> map_of (animation_figures s) v = Some fig \<longrightarrow>
      swarmpal_animated (set_slider_value v s) = Some fig)"
proof (intro conjI impI)
  assume a: "animation_playing s \<and> animation_callback s = Some cb \<and> distinct (cb_frames cb) \<and>
    i < length (cb_frames cb) \<and> slider_value (frame_slider s) = cb_frames cb ! i"
  then have "list_index (cb_frames cb) (cb_frames cb ! i) = i"
    by (simp add: list_index_nth)
  with a tick_value [of s cb] show
    "slider_value (frame_slider (tick s)) = cb_frames cb ! ((i + 1) mod length (cb_frames cb))"
    by simp
next
  assume "animation_playing s \<and> animation_callback s = Some cb \<and>
    slider_value (frame_slider s) \<notin> set (cb_frames cb)"
  with tick_value [of s cb] show
    "slider_value (frame_slider (tick s)) = cb_frames cb ! (1 mod length (cb_frames cb))"
    by simp
next
  assume a: "animation_playing s \<and> animation_callback s = Some cb \<and> distinct (cb_frames cb) \<and>
    sorted (cb_frames cb) \<and> cb_frames cb \<noteq> [] \<and>
    slider_value (frame_slider s) = Max (set (cb_frames cb))"
  let ?ks = "cb_frames cb"
  from a have n: "length ?ks - 1 < length ?ks" by (cases ?ks) simp_all
  from a have cur: "slider_value (frame_slider s) = ?ks ! (length ?ks - 1)"
    by (simp add: sorted_Max_last)
  with n have mem: "slider_value (frame_slider s) \<in> set ?ks" by simp
  from a n have "list_index ?ks (?ks ! (length ?ks - 1)) = length ?ks - 1"
    by (intro list_index_nth) simp_all
  with a cur mem tick_value [of s cb]
  have "slider_value (frame_slider (tick s)) = ?ks ! ((length ?ks - 1 + 1) mod length ?ks)"
    by simp
  also from a have "(length ?ks - 1 + 1) mod length ?ks = 0" by (cases ?ks) simp_all
  finally show "slider_value (frame_slider (tick s)) = Min (set ?ks)"
    using a by (simp add: sorted_Min_first)
next
  assume "\<not> animation_playing s \<and> animation_figures s \<noteq> []"
  then show "animation_playing (toggle_animation s)"
    and "animation_callback (toggle_animation s) =
        Some \<lparr>cb_period = 1200, cb_frames = map fst (animation_figures s)\<rparr>"
    by (simp_all add: toggle_animation_def start_animation_def Let_def)
next
  assume "animation_playing s"
  then show "\<not> animation_playing (toggle_animation s)"
    and "animation_callback (toggle_animation s) = None"
    and "tick (toggle_animation s) = toggle_animation s"
    by (simp_all add: toggle_animation_def tick_def Let_def split: option.splits)
next
  show "slider_value (frame_slider (set_slider_value v s)) = v"
    and "animation_playing (set_slider_value v s) = animation_playing s"
    and "animation_callback (set_slider_value v s) = animation_callback s"
    by simp_all
next
  assume "v \<noteq> slider_value (frame_slider s) \<and> map_of (animation_figures s) v = Some fig"
  then show "swarmpal_animated (set_slider_value v s) = Some fig"
    by (simp add: set_slider_value_def update_animation_frame_def)
qed

theorem animation_player_steps_witness:
  "animation_playing playing_012 \<and>
   animation_callback playing_012 = Some \<lparr>cb_period = 1200, cb_frames = [0, 1, 2]\<rparr> \<and>
   slider_value (frame_slider playing_012) = 0 \<and>
   slider_value (frame_slider (tick playing_012)) = 1 \<and>
   slider_value (frame_slider (tick (tick playing_012))) = 2 \<and>
   slider_value (frame_slider (tick (tick (tick playing_012)))) = 0 \<and>
   slider_value (frame_slider (tick (set_slider_value 1 (tick (tick playing_012))))) = 2 \<and>
   animation_callback (toggle_animation playing_012) = None"
proof -
  let ?cb = "\<lparr>cb_period = 1200, cb_frames = [0, 1, 2 :: int]\<rparr>"
  note st = playing_012_state
  have keep: "animation_playing (tick s) = animation_playing s \<and>
      animation_callback (tick s) = animation_callback s" for s :: "(string, string) dsecs_explorer"
    by (simp add: tick_def advance_frame_def Let_def split: option.splits)
  from animation_player_steps [of playing_012 ?cb 0] st
  have t1: "slider_value (frame_slider (tick playing_012)) = 1" by simp
  from animation_player_steps [of "tick playing_012" ?cb 1] st keep t1
  have t2: "slider_value (frame_slider (tick (tick playing_012))) = 2" by simp
  from animation_player_steps [of "tick (tick playing_012)" ?cb 2] st keep t2
  have t3: "slider_value (frame_slider (tick (tick (tick playing_012)))) = 0" by simp
  from animation_player_steps [of "set_slider_value 1 (tick (tick playing_012))" ?cb 1] st keep
  have t4: "slider_value (frame_slider (tick (set_slider_value 1 (tick (tick playing_012))))) = 2"
    by simp
  from animation_player_steps [of playing_012] st
  have t5: "animation_callback (toggle_animation playing_012) = None" by simp
  from st t1 t2 t3 t4 t5 show ?thesis by simp
qed

theorem tick_follows_insertion_order:
  "animation_playing playing_021 \<and>
   animation_callback playing_021 = Some \<lparr>cb_period = 1200, cb_frames = [0, 2, 1]\<rparr> \<and>
   slider_value (frame_slider playing_021) = 2 \<and>
   Max (set (map fst frames_021)) = 2 \<and>
   Min (set (map fst frames_021)) = 0 \<and>
   slider_value (frame_slider (tick playing_021)) = 1"
  by (simp add: playing_021_def player_defs demo_defs)

text \<open>
  C10. The \<open>except\<close> clause of \<open>load_netcdf_data\<close> is not total: for an upload whose
  \<open>temp_file\<close> is \<open>None\<close> the \<open>try\<close> block raises before \<open>filename\<close> is assigned, the
  clause then reads \<open>filename\<close>, and \<open>UnboundLocalError\<close> leaves the method with the
  status message unchanged.
\<close>

theorem load_netcdf_data_unbound_filename:
  "load_netcdf_data demo_env upload_without_temp_file =
     (Some (Exn ''UnboundLocalError''
              (''cannot access local variable '' @ quoted ''filename'' @
               '' where it is not associated with a value'')),
      upload_without_temp_file)"
  by (simp add: load_netcdf_data_def load_try_def attribute_name_def
      upload_without_temp_file_def new_explorer_def)




text \<open>
  C6. Amended. A start with a cache entry present restores the raw and processed
  handles, the plot, the data view and both snippets from the entry and calls neither
  \<open>fetch_data\<close> nor \<open>apply_processes\<close>: heap, cache and both call counters are
  unchanged, and the precache of the module does nothing. A session start with no entry
  present is \<open>_load_initial_data\<close> on the module's widget values: the configuration is
  the default configuration and \<open>fetch_data\<close> is called exactly once. When nothing
  raises, the raw handle is bound to the fetched dataset and the processed handle to a
  copy on which the chain has run (the chain runs twice, in \<open>update_input_data\<close> and in
  the \<open>update_analysis\<close> it ends with), the handles and the rendered artifacts are
  stored in the cache slot, and every later start restores exactly these without a fetch
  or a processing step. When the fetch raises, or the start-up handler raises for any
  other reason, nothing is stored. The precache stores the fetched dataset, its
  processed copy, the plot and the data view, with placeholder texts for the two
  snippets, and the start that follows it restores these; when the precache stores
  nothing (its fetch raises, for one), the start that follows fetches again, so that
  loading the module calls \<open>fetch_data\<close> twice.
\<close>

theorem start_of_life:
  fixes s0 :: "('d, 'f) tfa_gui" and env :: "('d, 'f) tfa_env"
  shows
  "(\<forall>c. cache s0 cache_key = Some c \<longrightarrow>
      raw_data (TFA_GUI_init env w s0) = c_raw_data c \<and>
      data (TFA_GUI_init env w s0) = c_data c \<and>
      swarmpal_quicklook (TFA_GUI_init env w s0) = c_figure c \<and>
      data_view (TFA_GUI_init env w s0) = c_data_view c \<and>
      code_snippet (TFA_GUI_init env w s0) = c_code_snippet c \<and>
      cli_command (TFA_GUI_init env w s0) = c_cli_command c \<and>
      heap (TFA_GUI_init env w s0) = heap s0 \<and>
      cache (TFA_GUI_init env w s0) = cache s0 \<and>
      fetch_calls (TFA_GUI_init env w s0) = fetch_calls s0 \<and>
      process_calls (TFA_GUI_init env w s0) = process_calls s0 \<and>
      populate_tfa_cache env s0 = s0 \<and>
      module_load env s0 = TFA_GUI_init env widgets s0) \<and>
   (cache s0 cache_key = None \<longrightarrow>
      TFA_GUI_init env widgets s0 = load_initial_data env (new_gui widgets s0) \<and>
      make_config env (new_gui widgets s0) = Inr default_config \<and>
      fetch_calls (TFA_GUI_init env widgets s0) = Suc (fetch_calls s0) \<and>
      (\<forall>d d1 html code cli fig.
         fetch_data env (fetch_calls s0) default_config = Inr d \<longrightarrow>
         apply_processes env d (process_params default_config) = (d1, None) \<longrightarrow>
         repr_html env d1 = Inr html \<longrightarrow>
         vires_template env widgets default_config = Inr code \<longrightarrow>
         cli_template env widgets default_config = Inr cli \<longrightarrow>
         (truthy env d1 \<longrightarrow> quicklook env d1 (''2026-01-01T00:00:00'', ''2026-01-02T00:00:00'') = Inr fig) \<longrightarrow>
         raw_data (TFA_GUI_init env widgets s0) = Some (length (heap s0)) \<and>
         data (TFA_GUI_init env widgets s0) = Some (length (heap s0) + 2) \<and>
         heap (TFA_GUI_init env widgets s0) = heap s0 @ [d, d1, d1] \<and>
         fetch_calls (TFA_GUI_init env widgets s0) = Suc (fetch_calls s0) \<and>
         process_calls (TFA_GUI_init env widgets s0) = process_calls s0 + 2 \<and>
         data_view (TFA_GUI_init env widgets s0) = Some html \<and>
         code_snippet (TFA_GUI_init env widgets s0) = Some code \<and>
         cli_command (TFA_GUI_init env widgets s0) = Some cli \<and>
         swarmpal_quicklook (TFA_GUI_init env widgets s0) = (if truthy env d1 then Some fig else None) \<and>
         cache (TFA_GUI_init env widgets s0) =
             (cache s0)(cache_key \<mapsto>
               \<lparr> c_raw_data = Some (length (heap s0)),
                 c_data = Some (length (heap s0) + 2),
                 c_figure = (if truthy env d1 then Some fig else None),
                 c_data_view = Some html,
                 c_code_snippet = Some code,
                 c_cli_command = Some cli \<rparr>) \<and>
         (\<forall>(env' :: ('d, 'f) tfa_env) w'.
            raw_data (TFA_GUI_init env' w' (TFA_GUI_init env widgets s0)) = Some (length (heap s0)) \<and>
            data (TFA_GUI_init env' w' (TFA_GUI_init env widgets s0)) = Some (length (heap s0) + 2) \<and>
            heap (TFA_GUI_init env' w' (TFA_GUI_init env widgets s0)) = heap s0 @ [d, d1, d1] \<and>
            fetch_calls (TFA_GUI_init env' w' (TFA_GUI_init env widgets s0)) = Suc (fetch_calls s0) \<and>
            process_calls (TFA_GUI_init env' w' (TFA_GUI_init env widgets s0)) = process_calls s0 + 2 \<and>
            data_view (TFA_GUI_init env' w' (TFA_GUI_init env widgets s0)) = Some html \<and>
            code_snippet (TFA_GUI_init env' w' (TFA_GUI_init env widgets s0)) = Some code \<and>
            cli_command (TFA_GUI_init env' w' (TFA_GUI_init env widgets s0)) = Some cli \<and>
            swarmpal_quicklook (TFA_GUI_init env' w' (TFA_GUI_init env widgets s0)) = (if truthy env d1 then Some fig else None) \<and>
            cache (TFA_GUI_init env' w' (TFA_GUI_init env widgets s0)) = cache (TFA_GUI_init env widgets s0))) \<and>
      (\<forall>e. fetch_data env (fetch_calls s0) default_config = Inl e \<longrightarrow>
         raw_data (TFA_GUI_init env widgets s0) = None \<and>
         data (TFA_GUI_init env widgets s0) = None \<and>
         swarmpal_quicklook (TFA_GUI_init env widgets s0) = None \<and>
         data_view (TFA_GUI_init env widgets s0) = None \<and>
         heap (TFA_GUI_init env widgets s0) = heap s0 \<and>
         process_calls (TFA_GUI_init env widgets s0) = process_calls s0 \<and>
         cache (TFA_GUI_init env widgets s0) = cache s0) \<and>
      (\<forall>e. fst (update_input_data env
              (log ''Starting TFA dashboard...'' ''info'' (new_gui widgets s0))) = Some e \<longrightarrow>
         cache (TFA_GUI_init env widgets s0) = cache s0) \<and>
      (\<forall>d d1 fig html.
         fetch_data env (fetch_calls s0) default_config = Inr d \<longrightarrow>
         apply_processes env d (process_params default_config) = (d1, None) \<longrightarrow>
         quicklook env d1 (''2026-01-01T00:00:00'', ''2026-01-02T00:00:00'') = Inr fig \<longrightarrow>
         repr_html env d1 = Inr html \<longrightarrow>
         populate_tfa_cache env s0 =
           s0\<lparr> heap := heap s0 @ [d, d1],
               fetch_calls := Suc (fetch_calls s0),
               process_calls := Suc (process_calls s0),
               cache := (cache s0)(cache_key \<mapsto>
                    \<lparr> c_raw_data = Some (length (heap s0)),
                      c_data = Some (Suc (length (heap s0))),
                      c_figure = Some fig,
                      c_data_view = Some html,
                      c_code_snippet = Some ''# Code snippet will be generated on first use'',
                      c_cli_command = Some ''# CLI command will be generated on first use'' \<rparr>) \<rparr> \<and>
         raw_data (module_load env s0) = Some (length (heap s0)) \<and>
         data (module_load env s0) = Some (Suc (length (heap s0))) \<and>
         heap (module_load env s0) = heap s0 @ [d, d1] \<and>
         swarmpal_quicklook (module_load env s0) = Some fig \<and>
         data_view (module_load env s0) = Some html \<and>
         code_snippet (module_load env s0) = Some ''# Code snippet will be generated on first use'' \<and>
         cli_command (module_load env s0) = Some ''# CLI command will be generated on first use'' \<and>
         fetch_calls (module_load env s0) = Suc (fetch_calls s0) \<and>
         process_calls (module_load env s0) = Suc (process_calls s0)) \<and>
      (\<forall>e. fetch_data env (fetch_calls s0) default_config = Inl e \<longrightarrow>
         populate_tfa_cache env s0 = s0\<lparr>fetch_calls := Suc (fetch_calls s0)\<rparr>) \<and>
      (cache (populate_tfa_cache env s0) cache_key = None \<longrightarrow>
         module_load env s0 =
           load_initial_data env (new_gui widgets (populate_tfa_cache env s0)) \<and>
         fetch_calls (module_load env s0) = fetch_calls s0 + 2))"
proof (rule conjI)
  show "\<forall>c. cache s0 cache_key = Some c \<longrightarrow>
      raw_data (TFA_GUI_init env w s0) = c_raw_data c \<and>
      data (TFA_GUI_init env w s0) = c_data c \<and>
      swarmpal_quicklook (TFA_GUI_init env w s0) = c_figure c \<and>
      data_view (TFA_GUI_init env w s0) = c_data_view c \<and>
      code_snippet (TFA_GUI_init env w s0) = c_code_snippet c \<and>
      cli_command (TFA_GUI_init env w s0) = c_cli_command c \<and>
      heap (TFA_GUI_init env w s0) = heap s0 \<and>
      cache (TFA_GUI_init env w s0) = cache s0 \<and>
      fetch_calls (TFA_GUI_init env w s0) = fetch_calls s0 \<and>
      process_calls (TFA_GUI_init env w s0) = process_calls s0 \<and>
      populate_tfa_cache env s0 = s0 \<and>
      module_load env s0 = TFA_GUI_init env widgets s0"
  proof (intro allI impI)
    fix c assume c: "cache s0 cache_key = Some c"
    from TFA_GUI_init_restore [OF c, of env w] populate_keeps_entry [OF c, of env]
    show "raw_data (TFA_GUI_init env w s0) = c_raw_data c \<and>
      data (TFA_GUI_init env w s0) = c_data c \<and>
      swarmpal_quicklook (TFA_GUI_init env w s0) = c_figure c \<and>
      data_view (TFA_GUI_init env w s0) = c_data_view c \<and>
      code_snippet (TFA_GUI_init env w s0) = c_code_snippet c \<and>
      cli_command (TFA_GUI_init env w s0) = c_cli_command c \<and>
      heap (TFA_GUI_init env w s0) = heap s0 \<and>
      cache (TFA_GUI_init env w s0) = cache s0 \<and>
      fetch_calls (TFA_GUI_init env w s0) = fetch_calls s0 \<and>
      process_calls (TFA_GUI_init env w s0) = process_calls s0 \<and>
      populate_tfa_cache env s0 = s0 \<and>
      module_load env s0 = TFA_GUI_init env widgets s0"
      by (simp add: module_load_def)
  qed
next
  show "cache s0 cache_key = None \<longrightarrow>
      TFA_GUI_init env widgets s0 = load_initial_data env (new_gui widgets s0) \<and>
      make_config env (new_gui widgets s0) = Inr default_config \<and>
      fetch_calls (TFA_GUI_init env widgets s0) = Suc (fetch_calls s0) \<and>
      (\<forall>d d1 html code cli fig.
         fetch_data env (fetch_calls s0) default_config = Inr d \<longrightarrow>
         apply_processes env d (process_params default_config) = (d1, None) \<longrightarrow>
         repr_html env d1 = Inr html \<longrightarrow>
         vires_template env widgets default_config = Inr code \<longrightarrow>
         cli_template env widgets default_config = Inr cli \<longrightarrow>
         (truthy env d1 \<longrightarrow> quicklook env d1 (''2026-01-01T00:00:00'', ''2026-01-02T00:00:00'') = Inr fig) \<longrightarrow>
         raw_data (TFA_GUI_init env widgets s0) = Some (length (heap s0)) \<and>
         data (TFA_GUI_init env widgets s0) = Some (length (heap s0) + 2) \<and>
         heap (TFA_GUI_init env widgets s0) = heap s0 @ [d, d1, d1] \<and>
         fetch_calls (TFA_GUI_init env widgets s0) = Suc (fetch_calls s0) \<and>
         process_calls (TFA_GUI_init env widgets s0) = process_calls s0 + 2 \<and>
         data_view (TFA_GUI_init env widgets s0) = Some html \<and>
         code_snippet (TFA_GUI_init env widgets s0) = Some code \<and>
         cli_command (TFA_GUI_init env widgets s0) = Some cli \<and>
         swarmpal_quicklook (TFA_GUI_init env widgets s0) = (if truthy env d1 then Some fig else None) \<and>
         cache (TFA_GUI_init env widgets s0) =
             (cache s0)(cache_key \<mapsto>
               \<lparr> c_raw_data = Some (length (heap s0)),
                 c_data = Some (length (heap s0) + 2),
                 c_figure = (if truthy env d1 then Some fig else None),
                 c_data_view = Some html,
                 c_code_snippet = Some code,
                 c_cli_command = Some cli \<rparr>) \<and>
         (\<forall>(env' :: ('d, 'f) tfa_env) w'.
            raw_data (TFA_GUI_init env' w' (TFA_GUI_init env widgets s0)) = Some (length (heap s0)) \<and>
            data (TFA_GUI_init env' w' (TFA_GUI_init env widgets s0)) = Some (length (heap s0) + 2) \<and>
            heap (TFA_GUI_init env' w' (TFA_GUI_init env widgets s0)) = heap s0 @ [d, d1, d1] \<and>
            fetch_calls (TFA_GUI_init env' w' (TFA_GUI_init env widgets s0)) = Suc (fetch_calls s0) \<and>
            process_calls (TFA_GUI_init env' w' (TFA_GUI_init env widgets s0)) = process_calls s0 + 2 \<and>
            data_view (TFA_GUI_init env' w' (TFA_GUI_init env widgets s0)) = Some html \<and>
            code_snippet (TFA_GUI_init env' w' (TFA_GUI_init env widgets s0)) = Some code \<and>
            cli_command (TFA_GUI_init env' w' (TFA_GUI_init env widgets s0)) = Some cli \<and>
            swarmpal_quicklook (TFA_GUI_init env' w' (TFA_GUI_init env widgets s0)) = (if truthy env d1 then Some fig else None) \<and>
            cache (TFA_GUI_init env' w' (TFA_GUI_init env widgets s0)) = cache (TFA_GUI_init env widgets s0))) \<and>
      (\<forall>e. fetch_data env (fetch_calls s0) default_config = Inl e \<longrightarrow>
         raw_data (TFA_GUI_init env widgets s0) = None \<and>
         data (TFA_GUI_init env widgets s0) = None \<and>
         swarmpal_quicklook (TFA_GUI_init env widgets s0) = None \<and>
         data_view (TFA_GUI_init env widgets s0) = None \<and>
         heap (TFA_GUI_init env widgets s0) = heap s0 \<and>
         process_calls (TFA_GUI_init env widgets s0) = process_calls s0 \<and>
         cache (TFA_GUI_init env widgets s0) = cache s0) \<and>
      (\<forall>e. fst (update_input_data env
              (log ''Starting TFA dashboard...'' ''info'' (new_gui widgets s0))) = Some e \<longrightarrow>
         cache (TFA_GUI_init env widgets s0) = cache s0) \<and>
      (\<forall>d d1 fig html.
         fetch_data env (fetch_calls s0) default_config = Inr d \<longrightarrow>
         apply_processes env d (process_params default_config) = (d1, None) \<longrightarrow>
         quicklook env d1 (''2026-01-01T00:00:00'', ''2026-01-02T00:00:00'') = Inr fig \<longrightarrow>
         repr_html env d1 = Inr html \<longrightarrow>
         populate_tfa_cache env s0 =
           s0\<lparr> heap := heap s0 @ [d, d1],
               fetch_calls := Suc (fetch_calls s0),
               process_calls := Suc (process_calls s0),
               cache := (cache s0)(cache_key \<mapsto>
                    \<lparr> c_raw_data = Some (length (heap s0)),
                      c_data = Some (Suc (length (heap s0))),
                      c_figure = Some fig,
                      c_data_view = Some html,
                      c_code_snippet = Some ''# Code snippet will be generated on first use'',
                      c_cli_command = Some ''# CLI command will be generated on first use'' \<rparr>) \<rparr> \<and>
         raw_data (module_load env s0) = Some (length (heap s0)) \<and>
         data (module_load env s0) = Some (Suc (length (heap s0))) \<and>
         heap (module_load env s0) = heap s0 @ [d, d1] \<and>
         swarmpal_quicklook (module_load env s0) = Some fig \<and>
         data_view (module_load env s0) = Some html \<and>
         code_snippet (module_load env s0) = Some ''# Code snippet will be generated on first use'' \<and>
         cli_command (module_load env s0) = Some ''# CLI command will be generated on first use'' \<and>
         fetch_calls (module_load env s0) = Suc (fetch_calls s0) \<and>
         process_calls (module_load env s0) = Suc (process_calls s0)) \<and>
      (\<forall>e. fetch_data env (fetch_calls s0) default_config = Inl e \<longrightarrow>
         populate_tfa_cache env s0 = s0\<lparr>fetch_calls := Suc (fetch_calls s0)\<rparr>) \<and>
      (cache (populate_tfa_cache env s0) cache_key = None \<longrightarrow>
         module_load env s0 =
           load_initial_data env (new_gui widgets (populate_tfa_cache env s0)) \<and>
         fetch_calls (module_load env s0) = fetch_calls s0 + 2)"
  proof (rule impI, intro conjI)
    assume none: "cache s0 cache_key = None"
    show "TFA_GUI_init env widgets s0 = load_initial_data env (new_gui widgets s0)"
      by (rule TFA_GUI_init_fresh [OF none])
    show "make_config env (new_gui widgets s0) = Inr default_config"
      by (rule default_widgets_config) simp_all
    show "fetch_calls (TFA_GUI_init env widgets s0) = Suc (fetch_calls s0)"
      by (rule TFA_GUI_init_fetch_calls [OF none])
    show "\<forall>d d1 html code cli fig.
         fetch_data env (fetch_calls s0) default_config = Inr d \<longrightarrow>
         apply_processes env d (process_params default_config) = (d1, None) \<longrightarrow>
         repr_html env d1 = Inr html \<longrightarrow>
         vires_template env widgets default_config = Inr code \<longrightarrow>
         cli_template env widgets default_config = Inr cli \<longrightarrow>
         (truthy env d1 \<longrightarrow> quicklook env d1 (''2026-01-01T00:00:00'', ''2026-01-02T00:00:00'') = Inr fig) \<longrightarrow>
         raw_data (TFA_GUI_init env widgets s0) = Some (length (heap s0)) \<and>
         data (TFA_GUI_init env widgets s0) = Some (length (heap s0) + 2) \<and>
         heap (TFA_GUI_init env widgets s0) = heap s0 @ [d, d1, d1] \<and>
         fetch_calls (TFA_GUI_init env widgets s0) = Suc (fetch_calls s0) \<and>
         process_calls (TFA_GUI_init env widgets s0) = process_calls s0 + 2 \<and>
         data_view (TFA_GUI_init env widgets s0) = Some html \<and>
         code_snippet (TFA_GUI_init env widgets s0) = Some code \<and>
         cli_command (TFA_GUI_init env widgets s0) = Some cli \<and>
         swarmpal_quicklook (TFA_GUI_init env widgets s0) = (if truthy env d1 then Some fig else None) \<and>
         cache (TFA_GUI_init env widgets s0) =
             (cache s0)(cache_key \<mapsto>
               \<lparr> c_raw_data = Some (length (heap s0)),
                 c_data = Some (length (heap s0) + 2),
                 c_figure = (if truthy env d1 then Some fig else None),
                 c_data_view = Some html,
                 c_code_snippet = Some code,
                 c_cli_command = Some cli \<rparr>) \<and>
         (\<forall>(env' :: ('d, 'f) tfa_env) w'.
            raw_data (TFA_GUI_init env' w' (TFA_GUI_init env widgets s0)) = Some (length (heap s0)) \<and>
            data (TFA_GUI_init env' w' (TFA_GUI_init env widgets s0)) = Some (length (heap s0) + 2) \<and>
            heap (TFA_GUI_init env' w' (TFA_GUI_init env widgets s0)) = heap s0 @ [d, d1, d1] \<and>
            fetch_calls (TFA_GUI_init env' w' (TFA_GUI_init env widgets s0)) = Suc (fetch_calls s0) \<and>
            process_calls (TFA_GUI_init env' w' (TFA_GUI_init env widgets s0)) = process_calls s0 + 2 \<and>
            data_view (TFA_GUI_init env' w' (TFA_GUI_init env widgets s0)) = Some html \<and>
            code_snippet (TFA_GUI_init env' w' (TFA_GUI_init env widgets s0)) = Some code \<and>
            cli_command (TFA_GUI_init env' w' (TFA_GUI_init env widgets s0)) = Some cli \<and>
            swarmpal_quicklook (TFA_GUI_init env' w' (TFA_GUI_init env widgets s0)) = (if truthy env d1 then Some fig else None) \<and>
            cache (TFA_GUI_init env' w' (TFA_GUI_init env widgets s0)) = cache (TFA_GUI_init env widgets s0))"
      by (intro allI impI) (rule TFA_GUI_init_round_trip [OF none]; assumption)
    show "\<forall>e. fetch_data env (fetch_calls s0) default_config = Inl e \<longrightarrow>
         raw_data (TFA_GUI_init env widgets s0) = None \<and>
         data (TFA_GUI_init env widgets s0) = None \<and>
         swarmpal_quicklook (TFA_GUI_init env widgets s0) = None \<and>
         data_view (TFA_GUI_init env widgets s0) = None \<and>
         heap (TFA_GUI_init env widgets s0) = heap s0 \<and>
         process_calls (TFA_GUI_init env widgets s0) = process_calls s0 \<and>
         cache (TFA_GUI_init env widgets s0) = cache s0"
      by (intro allI impI) (rule TFA_GUI_init_fetch_fails [OF none]; assumption)
    show "\<forall>e. fst (update_input_data env
              (log ''Starting TFA dashboard...'' ''info'' (new_gui widgets s0))) = Some e \<longrightarrow>
         cache (TFA_GUI_init env widgets s0) = cache s0"
      by (intro allI impI) (rule TFA_GUI_init_raise [OF none]; assumption)
    show "\<forall>d d1 fig html.
         fetch_data env (fetch_calls s0) default_config = Inr d \<longrightarrow>
         apply_processes env d (process_params default_config) = (d1, None) \<longrightarrow>
         quicklook env d1 (''2026-01-01T00:00:00'', ''2026-01-02T00:00:00'') = Inr fig \<longrightarrow>
         repr_html env d1 = Inr html \<longrightarrow>
         populate_tfa_cache env s0 =
           s0\<lparr> heap := heap s0 @ [d, d1],
               fetch_calls := Suc (fetch_calls s0),
               process_calls := Suc (process_calls s0),
               cache := (cache s0)(cache_key \<mapsto>
                    \<lparr> c_raw_data = Some (length (heap s0)),
                      c_data = Some (Suc (length (heap s0))),
                      c_figure = Some fig,
                      c_data_view = Some html,
                      c_code_snippet = Some ''# Code snippet will be generated on first use'',
                      c_cli_command = Some ''# CLI command will be generated on first use'' \<rparr>) \<rparr> \<and>
         raw_data (module_load env s0) = Some (length (heap s0)) \<and>
         data (module_load env s0) = Some (Suc (length (heap s0))) \<and>
         heap (module_load env s0) = heap s0 @ [d, d1] \<and>
         swarmpal_quicklook (module_load env s0) = Some fig \<and>
         data_view (module_load env s0) = Some html \<and>
         code_snippet (module_load env s0) = Some ''# Code snippet will be generated on first use'' \<and>
         cli_command (module_load env s0) = Some ''# CLI command will be generated on first use'' \<and>
         fetch_calls (module_load env s0) = Suc (fetch_calls s0) \<and>
         process_calls (module_load env s0) = Suc (process_calls s0)"
      by (intro allI impI) (rule module_load_restores_precache [OF none]; assumption)
    show "\<forall>e. fetch_data env (fetch_calls s0) default_config = Inl e \<longrightarrow>
         populate_tfa_cache env s0 = s0\<lparr>fetch_calls := Suc (fetch_calls s0)\<rparr>"
      by (intro allI impI) (rule populate_fetch_fails [OF none]; assumption)
    show "cache (populate_tfa_cache env s0) cache_key = None \<longrightarrow>
         module_load env s0 =
           load_initial_data env (new_gui widgets (populate_tfa_cache env s0)) \<and>
         fetch_calls (module_load env s0) = fetch_calls s0 + 2"
      by (intro allI impI) (rule module_load_fetches_twice [OF none]; assumption)
  qed
qed

theorem start_of_life_witness:
  "cache empty_gui cache_key = None \<and>
   raw_data (TFA_GUI_init ok_env widgets empty_gui) = Some 0 \<and>
   data (TFA_GUI_init ok_env widgets empty_gui) = Some 2 \<and>
   heap (TFA_GUI_init ok_env widgets empty_gui) = [''raw'', ''raw+TFA_Preprocess+TFA_Clean+TFA_Filter+TFA_Wavelet'', ''raw+TFA_Preprocess+TFA_Clean+TFA_Filter+TFA_Wavelet''] \<and>
   fetch_calls (TFA_GUI_init ok_env widgets empty_gui) = 1 \<and>
   process_calls (TFA_GUI_init ok_env widgets empty_gui) = 2 \<and>
   data_view (TFA_GUI_init ok_env widgets empty_gui) = Some (''<div>'' @ ''raw+TFA_Preprocess+TFA_Clean+TFA_Filter+TFA_Wavelet'' @ ''</div>'') \<and>
   swarmpal_quicklook (TFA_GUI_init ok_env widgets empty_gui) = Some (''plot of '' @ ''raw+TFA_Preprocess+TFA_Clean+TFA_Filter+TFA_Wavelet'') \<and>
   code_snippet (TFA_GUI_init ok_env widgets empty_gui) = Some ''code'' \<and>
   cli_command (TFA_GUI_init ok_env widgets empty_gui) = Some ''cli'' \<and>
   cache (TFA_GUI_init ok_env widgets empty_gui) cache_key =
     Some \<lparr> c_raw_data = Some 0, c_data = Some 2,
            c_figure = Some (''plot of '' @ ''raw+TFA_Preprocess+TFA_Clean+TFA_Filter+TFA_Wavelet''),
            c_data_view = Some (''<div>'' @ ''raw+TFA_Preprocess+TFA_Clean+TFA_Filter+TFA_Wavelet'' @ ''</div>''),
            c_code_snippet = Some ''code'', c_cli_command = Some ''cli'' \<rparr> \<and>
   raw_data (TFA_GUI_init failing_fetch_env widgets (TFA_GUI_init ok_env widgets empty_gui)) =
     Some 0 \<and>
   data (TFA_GUI_init failing_fetch_env widgets (TFA_GUI_init ok_env widgets empty_gui)) =
     Some 2 \<and>
   heap (TFA_GUI_init failing_fetch_env widgets (TFA_GUI_init ok_env widgets empty_gui)) =
     [''raw'', ''raw+TFA_Preprocess+TFA_Clean+TFA_Filter+TFA_Wavelet'', ''raw+TFA_Preprocess+TFA_Clean+TFA_Filter+TFA_Wavelet''] \<and>
   data_view (TFA_GUI_init failing_fetch_env widgets (TFA_GUI_init ok_env widgets empty_gui)) =
     Some (''<div>'' @ ''raw+TFA_Preprocess+TFA_Clean+TFA_Filter+TFA_Wavelet'' @ ''</div>'') \<and>
   fetch_calls (TFA_GUI_init failing_fetch_env widgets (TFA_GUI_init ok_env widgets empty_gui)) =
     1 \<and>
   process_calls (TFA_GUI_init failing_fetch_env widgets (TFA_GUI_init ok_env widgets empty_gui)) =
     2 \<and>
   populate_tfa_cache ok_env (TFA_GUI_init ok_env widgets empty_gui) =
     TFA_GUI_init ok_env widgets empty_gui \<and>
   heap (module_load ok_env empty_gui) = [''raw'', ''raw+TFA_Preprocess+TFA_Clean+TFA_Filter+TFA_Wavelet''] \<and>
   raw_data (module_load ok_env empty_gui) = Some 0 \<and>
   data (module_load ok_env empty_gui) = Some 1 \<and>
   swarmpal_quicklook (module_load ok_env empty_gui) = Some (''plot of '' @ ''raw+TFA_Preprocess+TFA_Clean+TFA_Filter+TFA_Wavelet'') \<and>
   code_snippet (module_load ok_env empty_gui) =
     Some ''# Code snippet will be generated on first use'' \<and>
   fetch_calls (module_load ok_env empty_gui) = 1 \<and>
   process_calls (module_load ok_env empty_gui) = 1 \<and>
   populate_tfa_cache flaky_fetch_env empty_gui = empty_gui\<lparr>fetch_calls := 1\<rparr> \<and>
   fetch_calls (module_load flaky_fetch_env empty_gui) = 2 \<and>
   raw_data (TFA_GUI_init flaky_fetch_env widgets empty_gui) = None \<and>
   cache (TFA_GUI_init flaky_fetch_env widgets empty_gui) = cache empty_gui \<and>
   fst (update_input_data flaky_fetch_env
          (log ''Starting TFA dashboard...'' ''info'' (new_gui widgets empty_gui))) =
     Some (Exn ''ConnectionError'' ''unreachable'')"
proof -
  let ?P = "''raw+TFA_Preprocess+TFA_Clean+TFA_Filter+TFA_Wavelet''"
  let ?T = "TFA_GUI_init ok_env widgets empty_gui"
  have none: "cache empty_gui cache_key = None" by (simp add: empty_gui_def)
  have st: "heap empty_gui = []" "fetch_calls empty_gui = 0" "process_calls empty_gui = 0"
    "cache empty_gui = Map.empty"
    by (simp_all add: empty_gui_def)
  have f: "fetch_data ok_env (fetch_calls empty_gui) default_config = Inr ''raw''"
    by (simp add: ok_env_def)
  have p: "apply_processes ok_env ''raw'' (process_params default_config) = (?P, None)"
    by (simp add: ok_env_def default_config_def step_names_def)
  have h: "repr_html ok_env ?P = Inr (''<div>'' @ ?P @ ''</div>'')"
    by (simp add: ok_env_def)
  have c: "vires_template ok_env widgets default_config = Inr ''code''"
    by (simp add: ok_env_def)
  have l: "cli_template ok_env widgets default_config = Inr ''cli''"
    by (simp add: ok_env_def)
  have q: "quicklook ok_env ?P (''2026-01-01T00:00:00'', ''2026-01-02T00:00:00'') =
      Inr (''plot of '' @ ?P)"
    by (simp add: ok_env_def)
  have tr: "truthy ok_env ?P" by (simp add: ok_env_def)
  note b = start_of_life [of empty_gui ok_env widgets, THEN conjunct2, THEN mp, OF none]
  note succ = b [THEN conjunct2, THEN conjunct2, THEN conjunct2, THEN conjunct1, rule_format,
      OF f p h c l, of "''plot of '' @ ?P"]
  note pre = b [THEN conjunct2, THEN conjunct2, THEN conjunct2, THEN conjunct2, THEN conjunct2,
      THEN conjunct2, THEN conjunct1, rule_format, OF f p q h]
  have first: "raw_data ?T = Some 0 \<and> data ?T = Some 2 \<and> heap ?T = [''raw'', ?P, ?P] \<and>
      fetch_calls ?T = 1 \<and> process_calls ?T = 2 \<and>
      data_view ?T = Some (''<div>'' @ ?P @ ''</div>'') \<and>
      swarmpal_quicklook ?T = Some (''plot of '' @ ?P) \<and>
      code_snippet ?T = Some ''code'' \<and> cli_command ?T = Some ''cli''"
    using succ q by (simp add: st tr)
  have entry: "cache ?T cache_key =
      Some \<lparr> c_raw_data = Some 0, c_data = Some 2,
             c_figure = Some (''plot of '' @ ?P),
             c_data_view = Some (''<div>'' @ ?P @ ''</div>''),
             c_code_snippet = Some ''code'', c_cli_command = Some ''cli'' \<rparr>"
    using succ q by (simp add: st tr)
  note again = start_of_life [of ?T failing_fetch_env widgets, THEN conjunct1, rule_format,
      OF entry]
  note kept = start_of_life [of ?T ok_env widgets, THEN conjunct1, rule_format, OF entry]
  have second: "raw_data (TFA_GUI_init failing_fetch_env widgets ?T) = Some 0 \<and>
      data (TFA_GUI_init failing_fetch_env widgets ?T) = Some 2 \<and>
      heap (TFA_GUI_init failing_fetch_env widgets ?T) = [''raw'', ?P, ?P] \<and>
      data_view (TFA_GUI_init failing_fetch_env widgets ?T) =
        Some (''<div>'' @ ?P @ ''</div>'') \<and>
      fetch_calls (TFA_GUI_init failing_fetch_env widgets ?T) = 1 \<and>
      process_calls (TFA_GUI_init failing_fetch_env widgets ?T) = 2"
    using again first by simp
  have keeps: "populate_tfa_cache ok_env ?T = ?T" using kept by simp
  have loaded: "heap (module_load ok_env empty_gui) = [''raw'', ?P] \<and>
      raw_data (module_load ok_env empty_gui) = Some 0 \<and>
      data (module_load ok_env empty_gui) = Some 1 \<and>
      swarmpal_quicklook (module_load ok_env empty_gui) = Some (''plot of '' @ ?P) \<and>
      code_snippet (module_load ok_env empty_gui) =
        Some ''# Code snippet will be generated on first use'' \<and>
      fetch_calls (module_load ok_env empty_gui) = 1 \<and>
      process_calls (module_load ok_env empty_gui) = 1"
    using pre by (simp add: st)
  have ff: "fetch_data flaky_fetch_env (fetch_calls empty_gui) default_config =
      Inl (Exn ''ConnectionError'' ''unreachable'')"
    by (simp add: flaky_fetch_env_def ok_env_def st)
  note b' = start_of_life [of empty_gui flaky_fetch_env widgets, THEN conjunct2, THEN mp, OF none]
  note fail = b' [THEN conjunct2, THEN conjunct2, THEN conjunct2, THEN conjunct2, THEN conjunct1,
      rule_format, OF ff]
  note prefail = b' [THEN conjunct2, THEN conjunct2, THEN conjunct2, THEN conjunct2,
      THEN conjunct2, THEN conjunct2, THEN conjunct2, THEN conjunct1, rule_format, OF ff]
  have flaky: "populate_tfa_cache flaky_fetch_env empty_gui = empty_gui\<lparr>fetch_calls := 1\<rparr>"
    using prefail by (simp add: st)
  have unstored: "cache (populate_tfa_cache flaky_fetch_env empty_gui) cache_key = None"
    by (simp add: flaky none)
  note two = b' [THEN conjunct2, THEN conjunct2, THEN conjunct2, THEN conjunct2,
      THEN conjunct2, THEN conjunct2, THEN conjunct2, THEN conjunct2, rule_format, OF unstored]
  have twice: "fetch_calls (module_load flaky_fetch_env empty_gui) = 2"
    using two [THEN conjunct2] by (simp add: st)
  have w: "gui_widgets (log ''Starting TFA dashboard...'' ''info'' (new_gui widgets empty_gui)) =
      widgets"
    "data_tabs (log ''Starting TFA dashboard...'' ''info'' (new_gui widgets empty_gui)) = None"
    by simp_all
  have raised: "fst (update_input_data flaky_fetch_env
      (log ''Starting TFA dashboard...'' ''info'' (new_gui widgets empty_gui))) =
      Some (Exn ''ConnectionError'' ''unreachable'')"
    using update_input_data_fetch_fails [OF default_widgets_snippets(3) [OF w]
        default_widgets_config [OF w], of flaky_fetch_env]
      ff by simp
  note raise = b' [THEN conjunct2, THEN conjunct2, THEN conjunct2, THEN conjunct2,
      THEN conjunct2, THEN conjunct1, rule_format, OF raised]
  have failed: "raw_data (TFA_GUI_init flaky_fetch_env widgets empty_gui) = None \<and>
      cache (TFA_GUI_init flaky_fetch_env widgets empty_gui) = cache empty_gui"
    using fail raise by simp
  from none first entry second keeps loaded flaky twice failed raised
  show ?thesis by (intro conjI) simp_all
qed

theorem failed_precache_fetches_twice:
  "cache empty_gui cache_key = None \<and>
   fetch_calls empty_gui = 0 \<and>
   populate_tfa_cache failing_fetch_env empty_gui = empty_gui\<lparr>fetch_calls := 1\<rparr> \<and>
   fetch_calls (module_load failing_fetch_env empty_gui) = 2 \<and>
   cache (module_load failing_fetch_env empty_gui) cache_key = None \<and>
   code_snippet (module_load ok_env empty_gui) =
     Some ''# Code snippet will be generated on first use'' \<and>
   code_snippet (TFA_GUI_init ok_env widgets empty_gui) = Some ''code''"
proof -
  let ?P = "''raw+TFA_Preprocess+TFA_Clean+TFA_Filter+TFA_Wavelet''"
  let ?s = "empty_gui\<lparr>fetch_calls := 1\<rparr>"
  have none: "cache empty_gui cache_key = None" by (simp add: empty_gui_def)
  have fc: "fetch_calls empty_gui = 0" by (simp add: empty_gui_def)
  have ff: "fetch_data failing_fetch_env n default_config =
      Inl (Exn ''ConnectionError'' ''unreachable'')" for n
    by (simp add: failing_fetch_env_def ok_env_def)
  have pop: "populate_tfa_cache failing_fetch_env empty_gui = ?s"
    using populate_fetch_fails [OF none ff] by (simp add: fc)
  have none': "cache ?s cache_key = None" by (simp add: none)
  have unstored: "cache (populate_tfa_cache failing_fetch_env empty_gui) cache_key = None"
    by (simp add: pop none)
  have twice: "fetch_calls (module_load failing_fetch_env empty_gui) = 2"
    using module_load_fetches_twice [OF none unstored, THEN conjunct2] by (simp add: fc)
  have "cache (TFA_GUI_init failing_fetch_env widgets ?s) = cache ?s"
    using TFA_GUI_init_fetch_fails [OF none' ff] by simp
  then have empty: "cache (module_load failing_fetch_env empty_gui) cache_key = None"
    by (simp add: module_load_def pop none)
  have f: "fetch_data ok_env (fetch_calls empty_gui) default_config = Inr ''raw''"
    by (simp add: ok_env_def)
  have p: "apply_processes ok_env ''raw'' (process_params default_config) = (?P, None)"
    by (simp add: ok_env_def default_config_def step_names_def)
  have h: "repr_html ok_env ?P = Inr (''<div>'' @ ?P @ ''</div>'')"
    by (simp add: ok_env_def)
  have c: "vires_template ok_env widgets default_config = Inr ''code''"
    by (simp add: ok_env_def)
  have l: "cli_template ok_env widgets default_config = Inr ''cli''"
    by (simp add: ok_env_def)
  have q: "quicklook ok_env ?P (''2026-01-01T00:00:00'', ''2026-01-02T00:00:00'') =
      Inr (''plot of '' @ ?P)"
    by (simp add: ok_env_def)
  have placeholder: "code_snippet (module_load ok_env empty_gui) =
      Some ''# Code snippet will be generated on first use''"
    using module_load_restores_precache [OF none f p q h] by simp
  have rendered: "code_snippet (TFA_GUI_init ok_env widgets empty_gui) = Some ''code''"
    using TFA_GUI_init_success [OF none f p h c l, of "''plot of '' @ ?P"] q by simp
  from none fc pop twice empty placeholder rendered show ?thesis by (intro conjI)
qed



end
